theory Spec2Isabelle
  imports Main "HOL-Library.Sublist" "HOL-Library.AList"
begin

section \<open>Exceptions\<close>

text \<open>
  The exceptions that the modelled code can raise: a TypeError (a property read on
  \<^verbatim>\<open>undefined\<close> or \<^verbatim>\<open>null\<close>, a call of a method that the value does not
  have, a failed string conversion), and the SecurityError that an access to
  \<^verbatim>\<open>localStorage\<close> raises in a browsing context where storage is blocked.
\<close>

datatype js_error = TypeError | SecurityError

section \<open>JavaScript values of the content documents\<close>

text \<open>
  The render engines (\<^verbatim>\<open>js/cv.js\<close>, \<^verbatim>\<open>js/portfolio.js\<close>) read values that
  \<^verbatim>\<open>JSON.parse\<close> produced, plus \<^verbatim>\<open>undefined\<close> for an absent property.
  Strings are byte sequences (ASCII, or UTF-8 for the few non-ASCII literals of the
  source). A number is carried as the decimal text that JavaScript's number-to-string
  conversion gives for it: the code modelled here only tests a number for truthiness and
  converts it to a string. An object is the list of its own properties.
\<close>

datatype jsval =
    JUndefined
  | JNull
  | JBool bool
  | JNum string
  | JStr string
  | JArr "jsval list"
  | JObj "(string \<times> jsval) list"

text \<open>Truthiness, as \<^verbatim>\<open>!v\<close>, \<^verbatim>\<open>a || b\<close> and \<^verbatim>\<open>if (v)\<close> test it.\<close>

fun truthy :: "jsval \<Rightarrow> bool" where
  "truthy JUndefined = False"
| "truthy JNull = False"
| "truthy (JBool b) = b"
| "truthy (JNum n) = (n \<noteq> ''0'' \<and> n \<noteq> ''NaN'')"
| "truthy (JStr s) = (s \<noteq> [])"
| "truthy (JArr xs) = True"
| "truthy (JObj kvs) = True"

text \<open>\<^verbatim>\<open>typeof v === 'string'\<close>\<close>

fun is_string :: "jsval \<Rightarrow> bool" where
  "is_string (JStr s) = True"
| "is_string v = False"

text \<open>
  The property read \<^verbatim>\<open>v[k]\<close> (and \<^verbatim>\<open>v.k\<close>). Reading a property of
  \<^verbatim>\<open>undefined\<close> or \<^verbatim>\<open>null\<close> throws a TypeError; an object yields its own
  property or \<^verbatim>\<open>undefined\<close>. The keys this program reads (\<^verbatim>\<open>de\<close>, \<^verbatim>\<open>en\<close>
  and the field names of the content records) are neither array indices nor names of
  members inherited from the built-in prototypes, so primitives and arrays yield
  \<^verbatim>\<open>undefined\<close> for them.
\<close>

fun get_prop :: "jsval \<Rightarrow> string \<Rightarrow> js_error + jsval" where
  "get_prop JUndefined k = Inl TypeError"
| "get_prop JNull k = Inl TypeError"
| "get_prop (JObj kvs) k = Inr (case map_of kvs k of Some v \<Rightarrow> v | None \<Rightarrow> JUndefined)"
| "get_prop v k = Inr JUndefined"

section \<open>i18n helpers\<close>

definition SUPPORTED_LANGS :: "string list" where
  "SUPPORTED_LANGS = [''de'', ''en'']"

text \<open>\<^verbatim>\<open>String.prototype.toLowerCase\<close> on the ASCII letters.\<close>

definition lower_char :: "char \<Rightarrow> char" where
  "lower_char c =
     (case map_of (zip ''ABCDEFGHIJKLMNOPQRSTUVWXYZ'' ''abcdefghijklmnopqrstuvwxyz'') c of
        Some l \<Rightarrow> l
      | None \<Rightarrow> c)"

definition toLowerCase :: "string \<Rightarrow> string" where
  "toLowerCase s = map lower_char s"

text \<open>
  \<^verbatim>\<open>resolveInitialLang()\<close> (the same text in \<^verbatim>\<open>cv.js\<close> and \<^verbatim>\<open>portfolio.js\<close>).
  Its three reads of the environment are the arguments: \<open>qLang\<close> is
  \<^verbatim>\<open>new URLSearchParams(window.location.search).get('lang')\<close> (a string or
  \<^verbatim>\<open>null\<close>); \<open>getItem\<close> is the outcome of \<^verbatim>\<open>localStorage.getItem(STORAGE_KEY)\<close>,
  the exception it raises or its value (a string or \<^verbatim>\<open>null\<close>); \<open>language\<close> is
  \<^verbatim>\<open>navigator.language\<close> (a string or \<^verbatim>\<open>undefined\<close>). The function has no
  \<^verbatim>\<open>try\<close>: an exception of the storage read ends it.
  \<^verbatim>\<open>
  const qLang = params.get('lang');
  if (qLang && SUPPORTED_LANGS.includes(qLang)) return qLang;
  const stored = localStorage.getItem(STORAGE_KEY);
  if (stored && SUPPORTED_LANGS.includes(stored)) return stored;
  const browser = (navigator.language || '').toLowerCase().slice(0, 2);
  return SUPPORTED_LANGS.includes(browser) ? browser : 'de';
  \<close>
\<close>

definition resolveInitialLang ::
  "string option \<Rightarrow> js_error + string option \<Rightarrow> string option \<Rightarrow> js_error + string" where
  "resolveInitialLang qLang getItem language =
     (let browser = take 2 (toLowerCase (case language of None \<Rightarrow> [] | Some l \<Rightarrow> l));
          from_browser = Inr (if browser \<in> set SUPPORTED_LANGS then browser else ''de'');
          from_storage =
            (case getItem of
               Inl e \<Rightarrow> Inl e
             | Inr None \<Rightarrow> from_browser
             | Inr (Some stored) \<Rightarrow>
                 if stored \<noteq> [] \<and> stored \<in> set SUPPORTED_LANGS then Inr stored else from_browser)
      in case qLang of
           None \<Rightarrow> from_storage
         | Some q \<Rightarrow> if q \<noteq> [] \<and> q \<in> set SUPPORTED_LANGS then Inr q else from_storage)"

text \<open>
  \<^verbatim>\<open>t(field, lang)\<close>: get the localized string; the field is a string or an object
  \<^verbatim>\<open>{ de, en }\<close>.
  \<^verbatim>\<open>
  if (!field) return '';
  if (typeof field === 'string') return field;
  return field[lang] || field['de'] || '';
  \<close>
\<close>

definition t :: "jsval \<Rightarrow> string \<Rightarrow> js_error + jsval" where
  "t field lang =
     (if \<not> truthy field then Inr (JStr [])
      else if is_string field then Inr field
      else (case get_prop field lang of
              Inl e \<Rightarrow> Inl e
            | Inr a \<Rightarrow>
                if truthy a then Inr a
                else (case get_prop field ''de'' of
                        Inl e \<Rightarrow> Inl e
                      | Inr b \<Rightarrow> if truthy b then Inr b else Inr (JStr []))))"

text \<open>
  \<^verbatim>\<open>str.split(c)\<close> for a one-character separator: the pieces between the
  separators, never an empty list.
\<close>

fun split_on :: "char \<Rightarrow> string \<Rightarrow> string list" where
  "split_on c [] = [[]]"
| "split_on c (x # xs) =
     (if x = c then [] # split_on c xs
      else (case split_on c xs of
              [] \<Rightarrow> [[x]]
            | piece # pieces \<Rightarrow> (x # piece) # pieces))"

text \<open>The separator of \<^verbatim>\<open>formatPeriod\<close>: space, en dash (U+2013 in UTF-8), space.\<close>

definition en_dash_sep :: string where
  "en_dash_sep = [CHR '' '', CHR 0xE2, CHR 0x80, CHR 0x93, CHR '' '']"

text \<open>
  \<^verbatim>\<open>formatDate(str, lang)\<close>.
  \<^verbatim>\<open>
  if (!str) return lang === 'de' ? 'heute' : 'present';
  const [year, month] = str.split('-');
  if (!month) return year; // year-only string
  const date = new Date(Number(year), Number(month) - 1);
  return date.toLocaleDateString(lang === 'de' ? 'de-DE' : 'en-GB', {month: 'short', year: 'numeric'});
  \<close>
  The last two lines depend on the locale data of the runtime; they are the parameter
  \<open>toLocaleDateString locale year month\<close>. A truthy value that is not a string has no
  \<^verbatim>\<open>split\<close> method: the call throws a TypeError.
\<close>

definition formatDate ::
  "(string \<Rightarrow> string \<Rightarrow> string \<Rightarrow> string) \<Rightarrow> jsval \<Rightarrow> string \<Rightarrow> js_error + string" where
  "formatDate toLocaleDateString str lang =
     (if \<not> truthy str then Inr (if lang = ''de'' then ''heute'' else ''present'')
      else (case str of
              JStr s \<Rightarrow>
                (let parts = split_on CHR ''-'' s;
                     year = hd parts;
                     month = (case tl parts of [] \<Rightarrow> [] | m # rest \<Rightarrow> m)
                 in if month = [] then Inr year
                    else Inr (toLocaleDateString (if lang = ''de'' then ''de-DE'' else ''en-GB'')
                                year month))
            | _ \<Rightarrow> Inl TypeError))"

text \<open>\<^verbatim>\<open>formatPeriod(start, end, lang)\<close>: the two dates around the separator.\<close>

definition formatPeriod ::
  "(string \<Rightarrow> string \<Rightarrow> string \<Rightarrow> string) \<Rightarrow> jsval \<Rightarrow> jsval \<Rightarrow> string \<Rightarrow> js_error + string" where
  "formatPeriod toLocaleDateString start end' lang =
     (case formatDate toLocaleDateString start lang of
        Inl e \<Rightarrow> Inl e
      | Inr a \<Rightarrow>
          (case formatDate toLocaleDateString end' lang of
             Inl e \<Rightarrow> Inl e
           | Inr b \<Rightarrow> Inr (a @ en_dash_sep @ b)))"

section \<open>The export server\<close>

text \<open>
  Node's \<^verbatim>\<open>path.join\<close> and \<^verbatim>\<open>path.normalize\<close> on POSIX: the arguments are
  joined with a slash, empty and \<^verbatim>\<open>.\<close> segments are dropped, a \<^verbatim>\<open>..\<close> segment
  removes the segment before it (at the top of an absolute path it is dropped, at the
  top of a relative path it is kept), and a trailing slash is kept.
\<close>

fun join_with :: "string \<Rightarrow> string list \<Rightarrow> string" where
  "join_with sep [] = []"
| "join_with sep [x] = x"
| "join_with sep (x # y # ys) = x @ sep @ join_with sep (y # ys)"

definition normalize_step :: "bool \<Rightarrow> string list \<Rightarrow> string \<Rightarrow> string list" where
  "normalize_step allowAboveRoot res seg =
     (if seg = [] \<or> seg = ''.'' then res
      else if seg = ''..'' then
        (if res \<noteq> [] \<and> last res \<noteq> ''..'' then butlast res
         else if allowAboveRoot then res @ [''..'']
         else res)
      else res @ [seg])"

definition normalizeString :: "string \<Rightarrow> bool \<Rightarrow> string" where
  "normalizeString path allowAboveRoot =
     join_with ''/'' (foldl (normalize_step allowAboveRoot) [] (split_on CHR ''/'' path))"

definition path_normalize :: "string \<Rightarrow> string" where
  "path_normalize path =
     (if path = [] then ''.''
      else
        (let isAbsolute = (hd path = CHR ''/'');
             trailingSeparator = (last path = CHR ''/'');
             p = normalizeString path (\<not> isAbsolute)
         in if p = [] then (if isAbsolute then ''/'' else if trailingSeparator then ''./'' else ''.'')
            else (if isAbsolute then ''/'' else []) @ p @ (if trailingSeparator then ''/'' else [])))"

definition path_join :: "string \<Rightarrow> string \<Rightarrow> string" where
  "path_join a b =
     (let joined = (if a = [] then b else if b = [] then a else a @ ''/'' @ b)
      in if joined = [] then ''.'' else path_normalize joined)"

text \<open>
  \<^verbatim>\<open>path.extname\<close>: from the last dot of the last path segment, unless that segment
  has no dot, starts with its only dot, or is \<^verbatim>\<open>..\<close>.
\<close>

definition path_extname :: "string \<Rightarrow> string" where
  "path_extname path =
     (let segs = filter (\<lambda>seg. seg \<noteq> []) (split_on CHR ''/'' path);
          base = (if segs = [] then [] else last segs);
          ext = rev (takeWhile (\<lambda>c. c \<noteq> CHR ''.'') (rev base))
      in if CHR ''.'' \<in> set base \<and> base \<noteq> ''..'' \<and> length ext + 1 \<noteq> length base
         then CHR ''.'' # ext
         else [])"

definition MIME_TYPES :: "(string \<times> string) list" where
  "MIME_TYPES =
     [(''.html'', ''text/html; charset=utf-8''),
      (''.css'', ''text/css; charset=utf-8''),
      (''.js'', ''application/javascript; charset=utf-8''),
      (''.json'', ''application/json; charset=utf-8''),
      (''.woff2'', ''font/woff2''),
      (''.svg'', ''image/svg+xml''),
      (''.png'', ''image/png''),
      (''.jpg'', ''image/jpeg''),
      (''.jpeg'', ''image/jpeg''),
      (''.ico'', ''image/x-icon'')]"

text \<open>An HTTP response: \<^verbatim>\<open>res.writeHead(status, headers); res.end(body)\<close>.\<close>

record response =
  status :: nat
  headers :: "(string \<times> string) list"
  body :: string

text \<open>The outcome of \<^verbatim>\<open>fs.readFile\<close>: \<^verbatim>\<open>err.code === 'ENOENT'\<close>, another error, or the data.\<close>

datatype read_result = ENOENT | Read_failed | File_data string

text \<open>
  \<^verbatim>\<open>serveStatic(req, res)\<close>, for the server root \<open>ROOT\<close> (an absolute path,
  \<^verbatim>\<open>path.resolve(__dirname, '..')\<close>), the file system \<open>readFile\<close> and the request
  target \<open>url\<close>. The result is the path given to \<^verbatim>\<open>fs.readFile\<close> (if it was
  called) and the response.
  \<^verbatim>\<open>
  let urlPath = req.url.split('?')[0];
  if (urlPath.endsWith('/')) urlPath += 'index.html';
  const filePath = path.join(ROOT, urlPath);
  // Security: prevent path traversal
  if (!filePath.startsWith(ROOT)) { res.writeHead(403); res.end('Forbidden'); return; }
  fs.readFile(filePath, (err, data) => { ... });
  \<close>
\<close>

definition serveStatic ::
  "string \<Rightarrow> (string \<Rightarrow> read_result) \<Rightarrow> string \<Rightarrow> string option \<times> response" where
  "serveStatic ROOT readFile url =
     (let urlPath0 = hd (split_on CHR ''?'' url);
          urlPath = (if urlPath0 \<noteq> [] \<and> last urlPath0 = CHR ''/''
                     then urlPath0 @ ''index.html'' else urlPath0);
          filePath = path_join ROOT urlPath
      in if \<not> prefix ROOT filePath
         then (None, \<lparr>status = 403, headers = [], body = ''Forbidden''\<rparr>)
         else (Some filePath,
               (case readFile filePath of
                  ENOENT \<Rightarrow>
                    \<lparr>status = 404, headers = [(''Content-Type'', ''text/plain'')],
                     body = ''Not found''\<rparr>
                | Read_failed \<Rightarrow>
                    \<lparr>status = 500, headers = [(''Content-Type'', ''text/plain'')],
                     body = ''Internal server error''\<rparr>
                | File_data dat \<Rightarrow>
                    (let ext = toLowerCase (path_extname filePath);
                         contentType = (case map_of MIME_TYPES ext of
                                          Some ty \<Rightarrow> ty
                                        | None \<Rightarrow> ''application/octet-stream'')
                     in \<lparr>status = 200, headers = [(''Content-Type'', contentType)],
                         body = dat\<rparr>))))"

text \<open>\<^verbatim>\<open>String.prototype.toUpperCase\<close> on the ASCII letters.\<close>

definition upper_char :: "char \<Rightarrow> char" where
  "upper_char c =
     (case map_of (zip ''abcdefghijklmnopqrstuvwxyz'' ''ABCDEFGHIJKLMNOPQRSTUVWXYZ'') c of
        Some u \<Rightarrow> u
      | None \<Rightarrow> c)"

definition toUpperCase :: "string \<Rightarrow> string" where
  "toUpperCase s = map upper_char s"

text \<open>A length as a header value: its decimal digits.\<close>

fun decimal :: "nat \<Rightarrow> string" where
  "decimal n =
     (if n < 10 then [''0123456789'' ! n]
      else decimal (n div 10) @ [''0123456789'' ! (n mod 10)])"

text \<open>
  What the headless browser did for one export: \<^verbatim>\<open>puppeteer.launch\<close> threw, a later
  step up to \<^verbatim>\<open>page.pdf\<close> threw (both with \<^verbatim>\<open>err.message\<close>), or the PDF bytes.
\<close>

datatype capture = Launch_failed string | Capture_failed string | Captured string

text \<open>
  \<^verbatim>\<open>handlePdfExport(req, res)\<close>. \<open>query_lang\<close> is
  \<^verbatim>\<open>url.searchParams.get('lang')\<close>, \<open>puppeteer_installed\<close> says whether
  \<^verbatim>\<open>require('puppeteer')\<close> succeeds, and \<open>run_browser lang cvUrl\<close> is the outcome of
  the browser session that seeds \<^verbatim>\<open>localStorage\<close> with \<open>lang\<close>, opens \<open>cvUrl\<close>
  and prints the page. The result is the response and whether the browser was closed.
\<close>

definition handlePdfExport ::
  "string \<Rightarrow> string option \<Rightarrow> bool \<Rightarrow> (string \<Rightarrow> string \<Rightarrow> capture) \<Rightarrow> response \<times> bool" where
  "handlePdfExport PORT query_lang puppeteer_installed run_browser =
     (let lang = (case query_lang of
                    None \<Rightarrow> ''de''
                  | Some l \<Rightarrow> if l \<in> set SUPPORTED_LANGS then l else ''de'')
      in if \<not> puppeteer_installed
         then (\<lparr>status = 503, headers = [(''Content-Type'', ''text/plain'')],
                body = ''Puppeteer not installed. Run: npm install''\<rparr>, False)
         else (case run_browser lang (''http://localhost:'' @ PORT @ ''/cv/?lang='' @ lang) of
                 Launch_failed msg \<Rightarrow>
                   (\<lparr>status = 500, headers = [(''Content-Type'', ''text/plain'')],
                     body = ''PDF generation failed: '' @ msg\<rparr>, False)
               | Capture_failed msg \<Rightarrow>
                   (\<lparr>status = 500, headers = [(''Content-Type'', ''text/plain'')],
                     body = ''PDF generation failed: '' @ msg\<rparr>, True)
               | Captured pdfBuffer \<Rightarrow>
                   (let filename = ''CV_Mathis_Thomsen_'' @ toUpperCase lang @ ''.pdf''
                    in (\<lparr>status = 200,
                         headers =
                           [(''Content-Type'', ''application/pdf''),
                            (''Content-Disposition'',
                               ''attachment; filename='' @ [CHR 0x22] @ filename @ [CHR 0x22]),
                            (''Content-Length'', decimal (length pdfBuffer))],
                         body = pdfBuffer\<rparr>, True))))"

section \<open>The language toggle\<close>

text \<open>The custom events the engines dispatch.\<close>

datatype event = Cv_rendered | Lang_changed string | Portfolio_rendered

text \<open>A toggle button: \<^verbatim>\<open>btn.dataset.lang\<close> and its two ARIA attributes.\<close>

record toggle_btn =
  btn_lang :: "string option"
  aria_pressed :: "string option"
  aria_label :: "string option"

text \<open>
  The state \<^verbatim>\<open>setLang\<close> of \<^verbatim>\<open>cv.js\<close> works on: the globals \<^verbatim>\<open>activeLang\<close> and
  \<^verbatim>\<open>cvData\<close>, the value stored under \<^verbatim>\<open>STORAGE_KEY\<close>, \<^verbatim>\<open>html[lang]\<close>, the
  \<^verbatim>\<open>.cv-lang-toggle__btn\<close> buttons, whether \<^verbatim>\<open>.cv-lang-toggle\<close> exists, the
  rendered sections, and the events dispatched so far.
\<close>

record 'dom cv_page =
  cv_activeLang :: string
  cvData :: jsval
  stored_lang :: "string option"
  html_lang :: string
  toggle_btns :: "toggle_btn list"
  has_toggle :: bool
  sections_dom :: 'dom
  dispatched :: "event list"

definition update_toggle_btn :: "string \<Rightarrow> toggle_btn \<Rightarrow> toggle_btn" where
  "update_toggle_btn lang btn =
     btn\<lparr>aria_pressed := Some (if btn_lang btn = Some lang then ''true'' else ''false''),
         aria_label :=
           Some (if btn_lang btn = Some ''de''
                 then (if lang = ''de'' then ''Deutsch aktiv'' else ''Auf Deutsch wechseln'')
                 else (if lang = ''en'' then ''English active'' else ''Switch to English''))\<rparr>"

definition fire_lang_changed :: "string \<Rightarrow> 'dom cv_page \<Rightarrow> 'dom cv_page" where
  "fire_lang_changed lang s =
     (if has_toggle s then s\<lparr>dispatched := dispatched s @ [Lang_changed lang]\<rparr> else s)"

text \<open>
  \<^verbatim>\<open>setLang(lang)\<close> of \<^verbatim>\<open>cv.js\<close>. \<open>renderAll data lang dom\<close> stands for the
  section renderers: it gives the sections after the call and the error, if it threw.
  \<open>setItem\<close> is the exception that \<^verbatim>\<open>localStorage.setItem\<close> raises, if any.
  \<^verbatim>\<open>
  if (!SUPPORTED_LANGS.includes(lang)) return;
  activeLang = lang;
  localStorage.setItem(STORAGE_KEY, lang);
  document.documentElement.lang = lang;
  document.querySelectorAll('.cv-lang-toggle__btn').forEach(btn => { ... });
  if (cvData) { renderAll(cvData, lang); document.dispatchEvent(new CustomEvent('cv-rendered')); }
  const toggle = document.querySelector('.cv-lang-toggle');
  if (toggle) toggle.dispatchEvent(new CustomEvent('lang-changed', { detail: { lang } }));
  \<close>
\<close>

definition setLang ::
  "(jsval \<Rightarrow> string \<Rightarrow> 'dom \<Rightarrow> 'dom \<times> js_error option) \<Rightarrow> js_error option \<Rightarrow> string
     \<Rightarrow> 'dom cv_page \<Rightarrow> 'dom cv_page \<times> js_error option" where
  "setLang renderAll setItem lang s =
     (if lang \<notin> set SUPPORTED_LANGS then (s, None)
      else
        (case setItem of
           Some e \<Rightarrow> (s\<lparr>cv_activeLang := lang\<rparr>, Some e)
         | None \<Rightarrow>
             (let s1 = s\<lparr>cv_activeLang := lang, stored_lang := Some lang, html_lang := lang,
                         toggle_btns := map (update_toggle_btn lang) (toggle_btns s)\<rparr>
              in if truthy (cvData s1)
                 then (case renderAll (cvData s1) lang (sections_dom s1) of
                         (d, Some e) \<Rightarrow> (s1\<lparr>sections_dom := d\<rparr>, Some e)
                       | (d, None) \<Rightarrow>
                           (fire_lang_changed lang
                              (s1\<lparr>sections_dom := d,
                                  dispatched := dispatched s1 @ [Cv_rendered]\<rparr>),
                            None))
                 else (fire_lang_changed lang s1, None))))"

text \<open>
  The state of \<^verbatim>\<open>portfolio.js\<close>: the globals \<^verbatim>\<open>activeLang\<close> and
  \<^verbatim>\<open>portfolioData\<close>, the stored value, \<^verbatim>\<open>html[lang]\<close>, the
  \<^verbatim>\<open>.portfolio-topbar__lang-btn\<close> buttons, whether \<^verbatim>\<open>#portfolio-overview\<close> exists,
  the \<^verbatim>\<open>data-slug\<close> of \<^verbatim>\<open>#portfolio-detail\<close> if that exists, the rendered page and
  the events dispatched so far.
\<close>

record 'dom portfolio_page =
  pf_activeLang :: string
  portfolioData :: jsval
  pf_stored_lang :: "string option"
  pf_html_lang :: string
  lang_btns :: "toggle_btn list"
  has_overview :: bool
  detail_slug :: "jsval option"
  page_dom :: 'dom
  pf_dispatched :: "event list"

definition press_lang_btn :: "string \<Rightarrow> toggle_btn \<Rightarrow> toggle_btn" where
  "press_lang_btn lang btn =
     btn\<lparr>aria_pressed := Some (if btn_lang btn = Some lang then ''true'' else ''false'')\<rparr>"

text \<open>
  \<^verbatim>\<open>setLang(lang)\<close> of \<^verbatim>\<open>portfolio.js\<close>. \<open>render_overview data\<close> and
  \<open>render_detail data slug\<close> stand for the effect of \<^verbatim>\<open>renderOverview\<close> and
  \<^verbatim>\<open>renderDetail\<close> on the page (they read \<^verbatim>\<open>activeLang\<close> and rebuild the mount
  node, the detail page with its buttons): the page after the call and the error, if it
  threw. \<open>setItem\<close> is the exception that \<^verbatim>\<open>localStorage.setItem\<close> raises, if any.
  \<^verbatim>\<open>
  if (!SUPPORTED_LANGS.includes(lang)) return;
  activeLang = lang;
  localStorage.setItem(STORAGE_KEY, lang);
  document.documentElement.lang = lang;
  document.querySelectorAll('.portfolio-topbar__lang-btn').forEach(btn => { ... });
  if (portfolioData) {
    if (overview) renderOverview(portfolioData);
    if (detail)   renderDetail(portfolioData, detail.dataset.slug);
    document.dispatchEvent(new CustomEvent('portfolio-rendered'));
  }
  \<close>
\<close>

definition setLang_portfolio ::
  "(jsval \<Rightarrow> 'dom portfolio_page \<Rightarrow> 'dom portfolio_page \<times> js_error option) \<Rightarrow>
   (jsval \<Rightarrow> jsval \<Rightarrow> 'dom portfolio_page \<Rightarrow> 'dom portfolio_page \<times> js_error option) \<Rightarrow>
   js_error option \<Rightarrow> string \<Rightarrow> 'dom portfolio_page \<Rightarrow> 'dom portfolio_page \<times> js_error option" where
  "setLang_portfolio render_overview render_detail setItem lang s =
     (if lang \<notin> set SUPPORTED_LANGS then (s, None)
      else
        (case setItem of
           Some e \<Rightarrow> (s\<lparr>pf_activeLang := lang\<rparr>, Some e)
         | None \<Rightarrow>
             (let s1 = s\<lparr>pf_activeLang := lang, pf_stored_lang := Some lang, pf_html_lang := lang,
                         lang_btns := map (press_lang_btn lang) (lang_btns s)\<rparr>
              in if truthy (portfolioData s1)
                 then (case (if has_overview s1 then render_overview (portfolioData s1) s1
                             else (s1, None)) of
                         (s2, Some e) \<Rightarrow> (s2, Some e)
                       | (s2, None) \<Rightarrow>
                           (case (case detail_slug s1 of
                                    None \<Rightarrow> (s2, None)
                                  | Some slug \<Rightarrow> render_detail (portfolioData s1) slug s2) of
                              (s3, Some e) \<Rightarrow> (s3, Some e)
                            | (s3, None) \<Rightarrow>
                                (s3\<lparr>pf_dispatched := pf_dispatched s3 @ [Portfolio_rendered]\<rparr>,
                                 None)))
                 else (s1, None))))"

section \<open>DOM building\<close>

text \<open>
  A DOM node: an element with its tag, class name, attributes and children; the nodes
  that assigning a non-empty string to \<^verbatim>\<open>innerHTML\<close> creates (the markup, unparsed);
  a text node.
\<close>

datatype node =
    Element string string "(string \<times> string) list" "node list"
  | Markup string
  | Text string

text \<open>Sequencing of steps that may throw: the first exception ends the function.\<close>

definition and_then :: "js_error + 'a \<Rightarrow> ('a \<Rightarrow> js_error + 'b) \<Rightarrow> js_error + 'b" where
  "and_then m f = (case m of Inl e \<Rightarrow> Inl e | Inr x \<Rightarrow> f x)"

text \<open>
  The string conversion of a value (\<^verbatim>\<open>String(v)\<close>, a template literal, the argument
  of \<^verbatim>\<open>RegExp.prototype.test\<close>, a property key). An array joins the conversions of its
  elements with commas, \<^verbatim>\<open>null\<close> and \<^verbatim>\<open>undefined\<close> elements giving the empty
  string. An object from JSON gives \<^verbatim>\<open>[object Object]\<close>, unless it has an own
  property \<^verbatim>\<open>toString\<close>: that value is not callable, the inherited \<^verbatim>\<open>valueOf\<close>
  returns the object itself, and the conversion throws a TypeError.
\<close>

fun to_string :: "jsval \<Rightarrow> js_error + string"
  and to_strings :: "jsval list \<Rightarrow> js_error + string list" where
  "to_string JUndefined = Inr ''undefined''"
| "to_string JNull = Inr ''null''"
| "to_string (JBool b) = Inr (if b then ''true'' else ''false'')"
| "to_string (JNum n) = Inr n"
| "to_string (JStr s) = Inr s"
| "to_string (JArr xs) =
     (case to_strings xs of Inl e \<Rightarrow> Inl e | Inr ss \<Rightarrow> Inr (join_with '','' ss))"
| "to_string (JObj kvs) =
     (if map_of kvs ''toString'' = None then Inr ''[object Object]'' else Inl TypeError)"
| "to_strings [] = Inr []"
| "to_strings (x # xs) =
     (case (if x = JUndefined \<or> x = JNull then Inr [] else to_string x) of
        Inl e \<Rightarrow> Inl e
      | Inr s \<Rightarrow> (case to_strings xs of Inl e \<Rightarrow> Inl e | Inr ss \<Rightarrow> Inr (s # ss)))"

text \<open>The children that \<^verbatim>\<open>node.innerHTML = s\<close> or \<^verbatim>\<open>node.textContent = s\<close> leaves.\<close>

definition markup :: "string \<Rightarrow> node list" where
  "markup s = (if s = [] then [] else [Markup s])"

definition text_nodes :: "string \<Rightarrow> node list" where
  "text_nodes s = (if s = [] then [] else [Text s])"

text \<open>
  \<^verbatim>\<open>el(tag, className, html)\<close>; an omitted argument is \<^verbatim>\<open>undefined\<close>, an empty
  class name sets nothing. The \<^verbatim>\<open>innerHTML\<close> setter converts its value to a string,
  \<^verbatim>\<open>null\<close> to the empty string.
  \<^verbatim>\<open>
  const node = document.createElement(tag);
  if (className) node.className = className;
  if (html !== undefined) node.innerHTML = html;
  return node;
  \<close>
\<close>

definition set_innerHTML :: "node \<Rightarrow> jsval \<Rightarrow> js_error + node" where
  "set_innerHTML n html =
     and_then (if html = JNull then Inr [] else to_string html)
       (\<lambda>s. case n of
              Element tag cls attrs children \<Rightarrow> Inr (Element tag cls attrs (markup s))
            | _ \<Rightarrow> Inr n)"

definition el :: "string \<Rightarrow> string \<Rightarrow> jsval \<Rightarrow> js_error + node" where
  "el tag className html =
     (if html = JUndefined then Inr (Element tag className [] [])
      else set_innerHTML (Element tag className [] []) html)"

fun appendChild :: "node \<Rightarrow> node \<Rightarrow> node" where
  "appendChild (Element tag cls attrs children) child = Element tag cls attrs (children @ [child])"
| "appendChild parent child = parent"

fun set_textContent :: "node \<Rightarrow> string \<Rightarrow> node" where
  "set_textContent (Element tag cls attrs children) s = Element tag cls attrs (text_nodes s)"
| "set_textContent n s = n"

fun setAttribute :: "node \<Rightarrow> string \<Rightarrow> string \<Rightarrow> node" where
  "setAttribute (Element tag cls attrs children) k v = Element tag cls (AList.update k v attrs) children"
| "setAttribute n k v = n"

text \<open>
  \<^verbatim>\<open>xs.forEach(x => { ...; parent.appendChild(child); })\<close>: the callback builds a
  child for \<open>x\<close> and appends it, or returns early without one; an exception in the
  callback ends the loop.
\<close>

fun forEach_append :: "('a \<Rightarrow> js_error + node option) \<Rightarrow> 'a list \<Rightarrow> node \<Rightarrow> js_error + node" where
  "forEach_append build [] parent = Inr parent"
| "forEach_append build (x # xs) parent =
     (case build x of
        Inl e \<Rightarrow> Inl e
      | Inr None \<Rightarrow> forEach_append build xs parent
      | Inr (Some child) \<Rightarrow> forEach_append build xs (appendChild parent child))"

text \<open>
  \<^verbatim>\<open>(v || [])\<close> as the receiver of \<^verbatim>\<open>forEach\<close> or \<^verbatim>\<open>find\<close>: a truthy value
  that is not an array has no such method, and the call throws a TypeError.
\<close>

definition or_empty :: "jsval \<Rightarrow> js_error + jsval list" where
  "or_empty v =
     (if \<not> truthy v then Inr []
      else (case v of JArr xs \<Rightarrow> Inr xs | _ \<Rightarrow> Inl TypeError))"

section \<open>Block renderers (case study detail)\<close>

text \<open>
  Every renderer reads the global \<^verbatim>\<open>activeLang\<close>; it is their first argument here.
  A child built from a localized field is \<^verbatim>\<open>el(tag, cls, t(x.field, activeLang))\<close>.
\<close>

definition localized_el :: "string \<Rightarrow> string \<Rightarrow> string \<Rightarrow> jsval \<Rightarrow> string \<Rightarrow> js_error + node" where
  "localized_el activeLang tag cls x field =
     and_then (get_prop x field) (\<lambda>v.
     and_then (t v activeLang) (\<lambda>html.
     el tag cls html))"

text \<open>
  \<^verbatim>\<open>const label = el('p', 'cs-section-label'); label.textContent = ...;\<close>
\<close>

definition section_label :: "string \<Rightarrow> js_error + node" where
  "section_label s =
     and_then (el ''p'' ''cs-section-label'' JUndefined) (\<lambda>label.
     Inr (set_textContent label s))"

text \<open>\<^verbatim>\<open>renderStatBar(block)\<close>; \<open>stat_item\<close> is the body of its loop.\<close>

definition stat_item :: "string \<Rightarrow> jsval \<Rightarrow> js_error + node" where
  "stat_item activeLang stat =
     and_then (el ''div'' ''cs-stat'' JUndefined) (\<lambda>item.
     and_then (localized_el activeLang ''span'' ''cs-stat__value'' stat ''value'') (\<lambda>value_el.
     and_then (localized_el activeLang ''span'' ''cs-stat__label'' stat ''label'') (\<lambda>label_el.
     Inr (appendChild (appendChild item value_el) label_el))))"

definition renderStatBar :: "string \<Rightarrow> jsval \<Rightarrow> js_error + node" where
  "renderStatBar activeLang block =
     and_then (el ''div'' ''cs-stat-bar'' JUndefined) (\<lambda>wrap.
     and_then (get_prop block ''stats'') (\<lambda>stats.
     and_then (or_empty stats) (\<lambda>xs.
     forEach_append (\<lambda>stat. and_then (stat_item activeLang stat) (\<lambda>item. Inr (Some item)))
       xs wrap)))"

text \<open>\<^verbatim>\<open>renderText(block)\<close>\<close>

definition renderText :: "string \<Rightarrow> jsval \<Rightarrow> js_error + node" where
  "renderText activeLang block = localized_el activeLang ''p'' ''cs-text'' block ''content''"

text \<open>The test \<^verbatim>\<open>/^\d+$/.test(s)\<close>: one or more ASCII digits and nothing else.\<close>

definition digits_only :: "string \<Rightarrow> bool" where
  "digits_only s = (s \<noteq> [] \<and> list_all (\<lambda>c. c \<in> set ''0123456789'') s)"

text \<open>
  \<^verbatim>\<open>renderTimeline(block)\<close>; \<open>timeline_phase\<close> is the body of its loop, up to the
  entry it appends.
  \<^verbatim>\<open>
  const isWip = phase.wip === true;
  const entry = el('div', isWip ? '... cs-timeline__phase-entry--wip' : 'cs-timeline__phase-entry');
  const rawLabel = t(phase.phase, activeLang);
  const num = el('p', 'cs-timeline__phase-num');
  num.textContent = /^\d+$/.test(rawLabel) ? `Phase ${rawLabel}` : rawLabel;
  entry.appendChild(num);
  if (isWip) {
    entry.appendChild(el('span', 'cs-timeline__phase-wip-badge',
      activeLang === 'de' ? 'In Arbeit' : 'In Progress'));
  }
  entry.appendChild(el('h3', 'cs-timeline__phase-title', t(phase.title, activeLang)));
  entry.appendChild(el('p', 'cs-timeline__phase-desc', t(phase.description, activeLang)));
  \<close>
  The regular expression converts \<^verbatim>\<open>rawLabel\<close> to a string; the \<^verbatim>\<open>textContent\<close>
  setter takes \<^verbatim>\<open>null\<close> and \<^verbatim>\<open>undefined\<close> as the empty string.
\<close>

definition timeline_phase :: "string \<Rightarrow> jsval \<Rightarrow> js_error + node" where
  "timeline_phase activeLang phase =
     and_then (get_prop phase ''wip'') (\<lambda>wip.
     and_then (el ''div''
                 (if wip = JBool True
                  then ''cs-timeline__phase-entry cs-timeline__phase-entry--wip''
                  else ''cs-timeline__phase-entry'') JUndefined) (\<lambda>entry.
     and_then (get_prop phase ''phase'') (\<lambda>ph.
     and_then (t ph activeLang) (\<lambda>rawLabel.
     and_then (el ''p'' ''cs-timeline__phase-num'' JUndefined) (\<lambda>num.
     and_then (to_string rawLabel) (\<lambda>s.
     and_then (Inr (appendChild entry
                 (set_textContent num
                    (if digits_only s then ''Phase '' @ s
                     else if rawLabel = JNull \<or> rawLabel = JUndefined then []
                     else s)))) (\<lambda>entry.
     and_then (if wip = JBool True
               then and_then (el ''span'' ''cs-timeline__phase-wip-badge''
                               (JStr (if activeLang = ''de'' then ''In Arbeit'' else ''In Progress'')))
                      (\<lambda>badge. Inr (appendChild entry badge))
               else Inr entry) (\<lambda>entry.
     and_then (localized_el activeLang ''h3'' ''cs-timeline__phase-title'' phase ''title'') (\<lambda>title.
     and_then (localized_el activeLang ''p'' ''cs-timeline__phase-desc'' phase ''description'') (\<lambda>desc.
     Inr (appendChild (appendChild entry title) desc)))))))))))"

definition renderTimeline :: "string \<Rightarrow> jsval \<Rightarrow> js_error + node" where
  "renderTimeline activeLang block =
     and_then (section_label (if activeLang = ''de'' then ''Prozess'' else ''Process'')) (\<lambda>label.
     and_then (el ''div'' ''cs-timeline'' JUndefined) (\<lambda>timeline.
     and_then (get_prop block ''phases'') (\<lambda>phases.
     and_then (or_empty phases) (\<lambda>xs.
     and_then (forEach_append
                 (\<lambda>phase. and_then (timeline_phase activeLang phase) (\<lambda>entry. Inr (Some entry)))
                 xs timeline) (\<lambda>timeline.
     and_then (el ''div'' [] JUndefined) (\<lambda>container.
     Inr (appendChild (appendChild container label) timeline)))))))"

text \<open>
  \<^verbatim>\<open>renderMethodGrid(block)\<close>; \<open>method_card\<close> is the body of its loop. The table
  \<^verbatim>\<open>ICONS\<close> of inline SVG markup is a parameter: \<open>ICONS k\<close> is the value of
  \<^verbatim>\<open>ICONS[k]\<close>, \<^verbatim>\<open>undefined\<close> for an unknown identifier.
\<close>

definition method_card :: "(string \<Rightarrow> jsval) \<Rightarrow> string \<Rightarrow> jsval \<Rightarrow> js_error + node" where
  "method_card ICONS activeLang method =
     and_then (el ''div'' ''cs-method'' JUndefined) (\<lambda>card.
     and_then (el ''div'' ''cs-method__icon'' JUndefined) (\<lambda>iconWrap.
     and_then (get_prop method ''icon'') (\<lambda>icon.
     and_then (to_string icon) (\<lambda>k.
     and_then (set_innerHTML iconWrap (if truthy (ICONS k) then ICONS k else JStr [])) (\<lambda>iconWrap.
     and_then (localized_el activeLang ''h3'' ''cs-method__title'' method ''title'') (\<lambda>title.
     and_then (localized_el activeLang ''p'' ''cs-method__desc'' method ''description'') (\<lambda>desc.
     Inr (appendChild (appendChild (appendChild card iconWrap) title) desc))))))))"

definition renderMethodGrid :: "(string \<Rightarrow> jsval) \<Rightarrow> string \<Rightarrow> jsval \<Rightarrow> js_error + node" where
  "renderMethodGrid ICONS activeLang block =
     and_then (section_label (if activeLang = ''de'' then ''Methoden'' else ''Methods'')) (\<lambda>label.
     and_then (el ''div'' ''cs-method-grid'' JUndefined) (\<lambda>grid.
     and_then (get_prop block ''methods'') (\<lambda>methods.
     and_then (or_empty methods) (\<lambda>xs.
     and_then (forEach_append
                 (\<lambda>method. and_then (method_card ICONS activeLang method) (\<lambda>card. Inr (Some card)))
                 xs grid) (\<lambda>grid.
     and_then (el ''div'' [] JUndefined) (\<lambda>container.
     Inr (appendChild (appendChild container label) grid)))))))"

text \<open>\<^verbatim>\<open>renderInsight(block)\<close>\<close>

definition renderInsight :: "string \<Rightarrow> jsval \<Rightarrow> js_error + node" where
  "renderInsight activeLang block =
     and_then (el ''aside'' ''cs-insight'' JUndefined) (\<lambda>wrap.
     and_then (localized_el activeLang ''p'' ''cs-insight__text'' block ''content'') (\<lambda>p.
     Inr (appendChild wrap p)))"

text \<open>\<^verbatim>\<open>renderChallengeApproachOutcome(block)\<close>; \<open>outcome_item\<close> is the body of its loop.\<close>

definition LABELS :: jsval where
  "LABELS =
     JObj [(''challenge'', JObj [(''de'', JStr ''Challenge''), (''en'', JStr ''Challenge'')]),
           (''approach'', JObj [(''de'', JStr ''Vorgehen''), (''en'', JStr ''Approach'')]),
           (''outcome'', JObj [(''de'', JStr ''Ergebnis''), (''en'', JStr ''Outcome'')])]"

definition outcome_item :: "string \<Rightarrow> jsval \<Rightarrow> string \<Rightarrow> js_error + node option" where
  "outcome_item activeLang block key =
     and_then (get_prop block key) (\<lambda>v.
     if \<not> truthy v then Inr None
     else
       and_then (el ''div'' ''cs-outcome__item'' JUndefined) (\<lambda>item.
       and_then (get_prop LABELS key) (\<lambda>labels.
       and_then (get_prop labels activeLang) (\<lambda>label.
       and_then (el ''p'' ''cs-outcome__label'' label) (\<lambda>label_el.
       and_then (localized_el activeLang ''p'' ''cs-outcome__text'' block key) (\<lambda>text_el.
       Inr (Some (appendChild (appendChild item label_el) text_el))))))))"

definition renderChallengeApproachOutcome :: "string \<Rightarrow> jsval \<Rightarrow> js_error + node" where
  "renderChallengeApproachOutcome activeLang block =
     and_then (el ''div'' ''cs-outcome'' JUndefined) (\<lambda>wrap.
     forEach_append (outcome_item activeLang block) [''challenge'', ''approach'', ''outcome''] wrap)"

text \<open>\<^verbatim>\<open>renderDisclaimer()\<close>\<close>

definition disclaimer_de :: string where
  \<open>disclaimer_de =
     ''Aus Vertraulichkeitsgr'' @ [CHR 0xC3, CHR 0xBC] @
     ''nden sind Details und Dokumentation dieses Projekts nicht '' @ [CHR 0xC3, CHR 0xB6] @
     ''ffentlich verf'' @ [CHR 0xC3, CHR 0xBC] @ ''gbar. Ich teile sie gerne im pers'' @
     [CHR 0xC3, CHR 0xB6] @ ''nlichen Gespr'' @ [CHR 0xC3, CHR 0xA4] @ ''ch.''\<close>

definition disclaimer_en :: string where
  \<open>disclaimer_en =
     ''Due to confidentiality, detailed documentation of this project is not '' @
     ''publicly available. I'' @ [CHR 0x27] @
     ''m happy to walk you through it in a personal conversation.''\<close>

definition renderDisclaimer :: "string \<Rightarrow> js_error + node" where
  "renderDisclaimer activeLang =
     and_then (el ''aside'' ''cs-disclaimer'' JUndefined) (\<lambda>wrap.
     and_then (el ''p'' ''cs-disclaimer__label''
                 (JStr (if activeLang = ''de'' then ''Vertraulich'' else ''Confidential''))) (\<lambda>label.
     and_then (el ''p'' ''cs-disclaimer__text''
                 (JStr (if activeLang = ''de'' then disclaimer_de else disclaimer_en))) (\<lambda>text_el.
     Inr (appendChild (appendChild wrap label) text_el))))"

text \<open>\<^verbatim>\<open>renderVisualSlots(block)\<close>; \<open>visual_slot\<close> is the body of its loop.\<close>

definition slot_icon :: string where
  \<open>slot_icon =
     ''<svg xmlns="http://www.w3.org/2000/svg" width="32" height="32" viewBox'' @
     ''="0 0 24 24" fill="none" stroke="currentColor" stroke-width="1" stroke'' @
     ''-linecap="round" stroke-linejoin="round" aria-hidden="true" class="cs-'' @
     ''visual-slot__icon"><rect x="3" y="3" width="18" height="18" rx="2"/><c'' @
     ''ircle cx="8.5" cy="8.5" r="1.5"/><polyline points="21 15 16 10 5 21"/>'' @ ''</svg>''\<close>

definition visual_slot :: "string \<Rightarrow> jsval \<Rightarrow> js_error + node" where
  "visual_slot activeLang slot =
     and_then (el ''div'' ''cs-visual-slot'' JUndefined) (\<lambda>item.
     and_then (el ''div'' ''cs-visual-slot__area'' JUndefined) (\<lambda>area.
     and_then (set_innerHTML area (JStr slot_icon)) (\<lambda>area.
     and_then (localized_el activeLang ''p'' ''cs-visual-slot__caption'' slot ''caption'') (\<lambda>caption.
     Inr (appendChild (appendChild item area) caption)))))"

definition renderVisualSlots :: "string \<Rightarrow> jsval \<Rightarrow> js_error + node" where
  "renderVisualSlots activeLang block =
     and_then (section_label (if activeLang = ''de'' then ''Visuals'' else ''Visuals'')) (\<lambda>label.
     and_then (el ''div'' ''cs-visual-slots'' JUndefined) (\<lambda>grid.
     and_then (get_prop block ''slots'') (\<lambda>slots.
     and_then (or_empty slots) (\<lambda>xs.
     and_then (forEach_append
                 (\<lambda>slot. and_then (visual_slot activeLang slot) (\<lambda>item. Inr (Some item)))
                 xs grid) (\<lambda>grid.
     and_then (el ''div'' [] JUndefined) (\<lambda>container.
     Inr (appendChild (appendChild container label) grid)))))))"

text \<open>\<^verbatim>\<open>renderKeyTakeaways(block)\<close>; \<open>takeaway_card\<close> is the body of its loop.\<close>

definition takeaway_card :: "string \<Rightarrow> jsval \<Rightarrow> js_error + node" where
  "takeaway_card activeLang item =
     and_then (el ''div'' ''cs-key-takeaway'' JUndefined) (\<lambda>card.
     and_then (localized_el activeLang ''h3'' ''cs-key-takeaway__title'' item ''title'') (\<lambda>title.
     and_then (localized_el activeLang ''p'' ''cs-key-takeaway__desc'' item ''description'') (\<lambda>desc.
     Inr (appendChild (appendChild card title) desc))))"

definition renderKeyTakeaways :: "string \<Rightarrow> jsval \<Rightarrow> js_error + node" where
  "renderKeyTakeaways activeLang block =
     and_then (section_label (if activeLang = ''de'' then ''Key Takeaways'' else ''Key Takeaways''))
       (\<lambda>label.
     and_then (el ''div'' ''cs-key-takeaways'' JUndefined) (\<lambda>grid.
     and_then (get_prop block ''takeaways'') (\<lambda>takeaways.
     and_then (or_empty takeaways) (\<lambda>xs.
     and_then (forEach_append
                 (\<lambda>item. and_then (takeaway_card activeLang item) (\<lambda>card. Inr (Some card)))
                 xs grid) (\<lambda>grid.
     and_then (el ''div'' [] JUndefined) (\<lambda>container.
     Inr (appendChild (appendChild container label) grid)))))))"

text \<open>
  \<^verbatim>\<open>renderBlock(block)\<close>: the dispatch on \<^verbatim>\<open>block.type\<close>; \<open>None\<close> is the
  \<^verbatim>\<open>null\<close> of the default case.
\<close>

definition renderBlock :: "(string \<Rightarrow> jsval) \<Rightarrow> string \<Rightarrow> jsval \<Rightarrow> js_error + node option" where
  "renderBlock ICONS activeLang block =
     and_then (get_prop block ''type'') (\<lambda>ty.
     if ty = JStr ''stat_bar'' then and_then (renderStatBar activeLang block) (\<lambda>n. Inr (Some n))
     else if ty = JStr ''text'' then and_then (renderText activeLang block) (\<lambda>n. Inr (Some n))
     else if ty = JStr ''timeline'' then and_then (renderTimeline activeLang block) (\<lambda>n. Inr (Some n))
     else if ty = JStr ''method_grid''
       then and_then (renderMethodGrid ICONS activeLang block) (\<lambda>n. Inr (Some n))
     else if ty = JStr ''insight'' then and_then (renderInsight activeLang block) (\<lambda>n. Inr (Some n))
     else if ty = JStr ''challenge_approach_outcome''
       then and_then (renderChallengeApproachOutcome activeLang block) (\<lambda>n. Inr (Some n))
     else if ty = JStr ''visual_slots''
       then and_then (renderVisualSlots activeLang block) (\<lambda>n. Inr (Some n))
     else if ty = JStr ''key_takeaways''
       then and_then (renderKeyTakeaways activeLang block) (\<lambda>n. Inr (Some n))
     else Inr None)"

section \<open>Detail page renderer\<close>

text \<open>
  Strict equality \<^verbatim>\<open>a === b\<close> of a parsed value \<open>a\<close> with a value \<open>b\<close> from
  elsewhere: an array or object is only equal to itself, \<^verbatim>\<open>NaN\<close> to nothing.
\<close>

definition strict_eq :: "jsval \<Rightarrow> jsval \<Rightarrow> bool" where
  "strict_eq a b =
     (case a of
        JArr xs \<Rightarrow> False
      | JObj kvs \<Rightarrow> False
      | JNum n \<Rightarrow> n \<noteq> ''NaN'' \<and> a = b
      | _ \<Rightarrow> a = b)"

text \<open>\<^verbatim>\<open>projects.find(p => p.slug === slug)\<close>; \<^verbatim>\<open>undefined\<close> when there is none.\<close>

fun find_project :: "jsval \<Rightarrow> jsval list \<Rightarrow> js_error + jsval" where
  "find_project slug [] = Inr JUndefined"
| "find_project slug (p # ps) =
     (case get_prop p ''slug'' of
        Inl e \<Rightarrow> Inl e
      | Inr v \<Rightarrow> if strict_eq v slug then Inr p else find_project slug ps)"

text \<open>
  \<^verbatim>\<open>buildLangToggle()\<close>; \<open>lang_toggle_item\<close> is the body of its loop over
  \<^verbatim>\<open>SUPPORTED_LANGS\<close> with the index. The click listeners of the buttons are not part
  of a node.
  \<^verbatim>\<open>
  if (i > 0) {
    wrap.appendChild(el('span', 'portfolio-topbar__lang-sep', '|'))
      .setAttribute('aria-hidden', 'true');
  }
  const btn = el('button', 'portfolio-topbar__lang-btn');
  btn.dataset.lang = lang;
  btn.textContent = lang.toUpperCase();
  btn.setAttribute('aria-pressed', lang === activeLang ? 'true' : 'false');
  btn.setAttribute('aria-label', lang === 'de' ? 'Auf Deutsch wechseln' : 'Switch to English');
  btn.addEventListener('click', () => setLang(lang));
  wrap.appendChild(btn);
  \<close>
\<close>

definition lang_toggle_item :: "string \<Rightarrow> node \<Rightarrow> nat \<times> string \<Rightarrow> js_error + node" where
  "lang_toggle_item activeLang wrap item =
     (case item of (i, lang) \<Rightarrow>
        and_then (if i > 0
                  then and_then (el ''span'' ''portfolio-topbar__lang-sep'' (JStr ''|''))
                         (\<lambda>sep. Inr (appendChild wrap (setAttribute sep ''aria-hidden'' ''true'')))
                  else Inr wrap) (\<lambda>wrap.
        and_then (el ''button'' ''portfolio-topbar__lang-btn'' JUndefined) (\<lambda>btn.
        Inr (appendChild wrap
               (setAttribute
                  (setAttribute
                     (set_textContent (setAttribute btn ''data-lang'' lang) (toUpperCase lang))
                     ''aria-pressed'' (if lang = activeLang then ''true'' else ''false''))
                  ''aria-label''
                  (if lang = ''de'' then ''Auf Deutsch wechseln'' else ''Switch to English''))))))"

text \<open>\<^verbatim>\<open>xs.forEach(x => { ... })\<close> with a callback that changes the node built so far.\<close>

fun forEach :: "(node \<Rightarrow> 'a \<Rightarrow> js_error + node) \<Rightarrow> 'a list \<Rightarrow> node \<Rightarrow> js_error + node" where
  "forEach callback [] n = Inr n"
| "forEach callback (x # xs) n =
     (case callback n x of Inl e \<Rightarrow> Inl e | Inr n' \<Rightarrow> forEach callback xs n')"

definition buildLangToggle :: "string \<Rightarrow> js_error + node" where
  "buildLangToggle activeLang =
     and_then (el ''div'' ''portfolio-topbar__lang'' JUndefined) (\<lambda>wrap.
     forEach (lang_toggle_item activeLang) (enumerate 0 SUPPORTED_LANGS)
       (setAttribute (setAttribute wrap ''role'' ''group'') ''aria-label''
          (if activeLang = ''de'' then ''Sprache w'' @ [CHR 0xC3, CHR 0xA4] @ ''hlen'' else ''Select language'')))"

text \<open>\<^verbatim>\<open>buildDetailTopbar()\<close>\<close>

definition back_arrow :: string where
  \<open>back_arrow =
     ''<span aria-hidden="true">'' @ [CHR 0xE2, CHR 0x86, CHR 0x90] @ ''</span>''\<close>

definition buildDetailTopbar :: "string \<Rightarrow> js_error + node" where
  "buildDetailTopbar activeLang =
     and_then (el ''nav'' ''portfolio-topbar case-study-topbar'' JUndefined) (\<lambda>nav.
     and_then (el ''a'' ''portfolio-topbar__back'' JUndefined) (\<lambda>back.
     and_then (set_innerHTML (setAttribute back ''href'' ''/portfolio/'') (JStr back_arrow)) (\<lambda>back.
     and_then (buildLangToggle activeLang) (\<lambda>toggle.
     Inr (appendChild
            (appendChild
               (setAttribute (setAttribute nav ''role'' ''navigation'') ''aria-label''
                  (if activeLang = ''de'' then ''Seiten-Navigation'' else ''Page navigation''))
               (appendChild back
                  (Text ([CHR 0xC2, CHR 0xA0] @
                         (if activeLang = ''de'' then ''Portfolio'' else ''Portfolio'')))))
            toggle)))))"

text \<open>\<^verbatim>\<open>buildFooter()\<close>\<close>

definition footer_markup :: string where
  \<open>footer_markup =
     [CHR 0x0A] @ ''    <span>'' @ [CHR 0xC2, CHR 0xA9] @ '' 2026 Mathis Thomsen</span>'' @
     [CHR 0x0A] @ ''    <span class="site-footer__sep">'' @ [CHR 0xC2, CHR 0xB7] @
     ''</span>'' @ [CHR 0x0A] @ ''    <a href="/impressum.html">Impressum</a>'' @ [CHR 0x0A] @
     ''    <span class="site-footer__sep">'' @ [CHR 0xC2, CHR 0xB7] @ ''</span>'' @
     [CHR 0x0A] @ ''    <a href="/datenschutz.html">Datenschutz</a>'' @ [CHR 0x0A] @ ''  ''\<close>

definition buildFooter :: "js_error + node" where
  "buildFooter =
     and_then (el ''footer'' ''site-footer'' JUndefined) (\<lambda>footer.
     set_innerHTML footer (JStr footer_markup))"

text \<open>
  \<^verbatim>\<open>buildCaseStudyHeader(project)\<close>. \<open>meta_item\<close> is the body of the loop over
  \<^verbatim>\<open>META_FIELDS\<close>:
  \<^verbatim>\<open>
  const val = t(project[key], activeLang);
  if (!val) return;
  const item = el('div', 'case-study-header__meta-item');
  item.appendChild(el('dt', 'case-study-header__meta-label', label[activeLang]));
  item.appendChild(el('dd', 'case-study-header__meta-value', val));
  meta.appendChild(item);
  \<close>
\<close>

definition META_FIELDS :: "(string \<times> jsval) list" where
  "META_FIELDS =
     [(''year'', JObj [(''de'', JStr ''Jahr''), (''en'', JStr ''Year'')]),
      (''duration'', JObj [(''de'', JStr ''Dauer''), (''en'', JStr ''Duration'')]),
      (''client'', JObj [(''de'', JStr ''Kunde''), (''en'', JStr ''Client'')]),
      (''role'', JObj [(''de'', JStr ''Rolle''), (''en'', JStr ''Role'')])]"

definition meta_item :: "string \<Rightarrow> jsval \<Rightarrow> string \<times> jsval \<Rightarrow> js_error + node option" where
  "meta_item activeLang project field =
     (case field of (key, label) \<Rightarrow>
        and_then (get_prop project key) (\<lambda>v.
        and_then (t v activeLang) (\<lambda>val.
        if \<not> truthy val then Inr None
        else
          and_then (el ''div'' ''case-study-header__meta-item'' JUndefined) (\<lambda>item.
          and_then (get_prop label activeLang) (\<lambda>l.
          and_then (el ''dt'' ''case-study-header__meta-label'' l) (\<lambda>dt.
          and_then (el ''dd'' ''case-study-header__meta-value'' val) (\<lambda>dd.
          Inr (Some (appendChild (appendChild item dt) dd)))))))))"

text \<open>
  \<^verbatim>\<open>v.length\<close>: the number of elements of an array or of characters of a string (as
  its decimal text), the own property of an object, \<^verbatim>\<open>undefined\<close> for a number or a
  boolean.
\<close>

fun get_length :: "jsval \<Rightarrow> jsval" where
  "get_length (JArr xs) = JNum (decimal (length xs))"
| "get_length (JStr s) = JNum (decimal (length s))"
| "get_length (JObj kvs) = (case map_of kvs ''length'' of Some v \<Rightarrow> v | None \<Rightarrow> JUndefined)"
| "get_length v = JUndefined"

text \<open>\<^verbatim>\<open>s.replace(/^https?:\/\//, '')\<close>\<close>

definition strip_scheme :: "string \<Rightarrow> string" where
  "strip_scheme s =
     (if prefix ''https://'' s then drop 8 s
      else if prefix ''http://'' s then drop 7 s
      else s)"

text \<open>
  The tags and the external link of the header:
  \<^verbatim>\<open>
  if (project.tags && project.tags.length) {
    const ul = el('ul', 'case-study-header__tags');
    project.tags.forEach(tag => { ul.appendChild(el('li', 'case-study-header__tag', tag)); });
    inner.appendChild(ul);
  }
  if (project.url) {
    const urlLink = el('a', 'case-study-header__url');
    urlLink.href = project.url;
    urlLink.target = '_blank';
    urlLink.rel = 'noopener noreferrer';
    urlLink.textContent = project.url.replace(/^https?:\/\//, '') + ' ...';
    inner.appendChild(urlLink);
  }
  \<close>
  (the text ends in a space and the arrow U+2197). A truthy \<^verbatim>\<open>url\<close> that is not a
  string has no \<^verbatim>\<open>replace\<close> method.
\<close>

definition header_tags :: "jsval \<Rightarrow> node \<Rightarrow> js_error + node" where
  "header_tags project inner =
     and_then (get_prop project ''tags'') (\<lambda>tags.
     if truthy tags \<and> truthy (get_length tags)
     then
       and_then (el ''ul'' ''case-study-header__tags'' JUndefined) (\<lambda>ul.
       and_then (or_empty tags) (\<lambda>xs.
       and_then (forEach_append
                   (\<lambda>tag. and_then (el ''li'' ''case-study-header__tag'' tag) (\<lambda>li. Inr (Some li)))
                   xs ul) (\<lambda>ul.
       Inr (appendChild inner ul))))
     else Inr inner)"

definition header_url :: "jsval \<Rightarrow> node \<Rightarrow> js_error + node" where
  "header_url project inner =
     and_then (get_prop project ''url'') (\<lambda>url.
     if truthy url
     then
       and_then (el ''a'' ''case-study-header__url'' JUndefined) (\<lambda>urlLink.
       and_then (to_string url) (\<lambda>href.
       case url of
         JStr s \<Rightarrow>
           Inr (appendChild inner
                  (set_textContent
                     (setAttribute
                        (setAttribute (setAttribute urlLink ''href'' href) ''target'' ''_blank'')
                        ''rel'' ''noopener noreferrer'')
                     (strip_scheme s @ '' '' @ [CHR 0xE2, CHR 0x86, CHR 0x97])))
       | _ \<Rightarrow> Inl TypeError))
     else Inr inner)"

definition buildCaseStudyHeader :: "string \<Rightarrow> jsval \<Rightarrow> js_error + node" where
  "buildCaseStudyHeader activeLang project =
     and_then (el ''header'' ''case-study-header'' JUndefined) (\<lambda>header.
     and_then (el ''div'' ''case-study-header__inner container'' JUndefined) (\<lambda>inner.
     and_then (el ''p'' ''case-study-header__label'' (JStr ''Portfolio'')) (\<lambda>label.
     and_then (Inr (appendChild inner label)) (\<lambda>inner.
     and_then (get_prop project ''wip'') (\<lambda>wip.
     and_then (if truthy wip
               then and_then (el ''span'' ''case-study-header__wip-badge''
                               (JStr (if activeLang = ''de''
                                      then ''In Arbeit '' @ [CHR 0xC2, CHR 0xB7] @ '' Work in Progress''
                                      else ''Work in Progress '' @ [CHR 0xC2, CHR 0xB7] @ '' In Arbeit'')))
                      (\<lambda>badge. Inr (appendChild inner badge))
               else Inr inner) (\<lambda>inner.
     and_then (localized_el activeLang ''h1'' ''case-study-header__title'' project ''title'') (\<lambda>title.
     and_then (Inr (appendChild inner title)) (\<lambda>inner.
     and_then (el ''dl'' ''case-study-header__meta'' JUndefined) (\<lambda>meta.
     and_then (forEach_append (meta_item activeLang project) META_FIELDS meta) (\<lambda>meta.
     and_then (Inr (appendChild inner meta)) (\<lambda>inner.
     and_then (header_tags project inner) (\<lambda>inner.
     and_then (header_url project inner) (\<lambda>inner.
     Inr (appendChild header inner))))))))))))))"

text \<open>
  The wrapper of one block:
  \<^verbatim>\<open>
  const wrapper = el('div', 'case-study__block');
  wrapper.setAttribute('data-reveal', '');
  wrapper.appendChild(rendered);
  \<close>
\<close>

definition block_wrapper :: "node \<Rightarrow> js_error + node" where
  "block_wrapper rendered =
     and_then (el ''div'' ''case-study__block'' JUndefined) (\<lambda>wrapper.
     Inr (appendChild (setAttribute wrapper ''data-reveal'' []) rendered))"

text \<open>
  The body of the loop over \<^verbatim>\<open>project.sections\<close>:
  \<^verbatim>\<open>
  const rendered = renderBlock(block);
  if (!rendered) return;
  ... bodyInner.appendChild(wrapper);
  \<close>
\<close>

definition section_block :: "(string \<Rightarrow> jsval) \<Rightarrow> string \<Rightarrow> jsval \<Rightarrow> js_error + node option" where
  "section_block ICONS activeLang block =
     and_then (renderBlock ICONS activeLang block) (\<lambda>rendered.
     case rendered of
       None \<Rightarrow> Inr None
     | Some r \<Rightarrow> and_then (block_wrapper r) (\<lambda>wrapper. Inr (Some wrapper)))"

text \<open>
  The content body of the detail page:
  \<^verbatim>\<open>
  const body = el('div', 'case-study-body');
  const bodyInner = el('div', 'container');
  (project.sections || []).forEach(block => { ... });
  if (project.confidential) {
    const wrapper = el('div', 'case-study__block');
    wrapper.setAttribute('data-reveal', '');
    wrapper.appendChild(renderDisclaimer());
    bodyInner.appendChild(wrapper);
  }
  body.appendChild(bodyInner);
  \<close>
\<close>

definition detail_body :: "(string \<Rightarrow> jsval) \<Rightarrow> string \<Rightarrow> jsval \<Rightarrow> js_error + node" where
  "detail_body ICONS activeLang project =
     and_then (el ''div'' ''case-study-body'' JUndefined) (\<lambda>body_el.
     and_then (el ''div'' ''container'' JUndefined) (\<lambda>bodyInner.
     and_then (get_prop project ''sections'') (\<lambda>sections.
     and_then (or_empty sections) (\<lambda>blocks.
     and_then (forEach_append (section_block ICONS activeLang) blocks bodyInner) (\<lambda>bodyInner.
     and_then (get_prop project ''confidential'') (\<lambda>confidential.
     and_then (if truthy confidential
               then and_then (renderDisclaimer activeLang) (\<lambda>disclaimer.
                    and_then (block_wrapper disclaimer) (\<lambda>wrapper.
                    Inr (appendChild bodyInner wrapper)))
               else Inr bodyInner) (\<lambda>bodyInner.
     Inr (appendChild body_el bodyInner))))))))"

text \<open>
  What \<^verbatim>\<open>renderDetail\<close> leaves: \<^verbatim>\<open>document.title\<close> and the children of
  \<^verbatim>\<open>#portfolio-detail\<close>.
\<close>

record detail_page =
  document_title :: string
  container_children :: "node list"

text \<open>
  \<^verbatim>\<open>renderDetail(data, slug)\<close>. \<open>has_container\<close> says whether
  \<^verbatim>\<open>#portfolio-detail\<close> exists; the result is \<open>None\<close> after the early return.
  \<^verbatim>\<open>
  const project = (data.projects || []).find(p => p.slug === slug);
  const container = document.getElementById('portfolio-detail');
  if (!project || !container) return;
  document.title = `${t(project.title, activeLang)} ... Mathis Thomsen`;
  container.innerHTML = '';
  container.appendChild(buildDetailTopbar());
  const main = el('main', 'case-study-main');
  main.id = 'main';
  main.appendChild(buildCaseStudyHeader(project));
  ... the content body ...
  main.appendChild(body);
  container.appendChild(main);
  container.appendChild(buildFooter());
  \<close>
  (the title has an em dash, U+2014, between spaces).
\<close>

definition renderDetail ::
  "(string \<Rightarrow> jsval) \<Rightarrow> string \<Rightarrow> bool \<Rightarrow> jsval \<Rightarrow> jsval \<Rightarrow> js_error + detail_page option" where
  "renderDetail ICONS activeLang has_container data slug =
     and_then (get_prop data ''projects'') (\<lambda>projects.
     and_then (or_empty projects) (\<lambda>ps.
     and_then (find_project slug ps) (\<lambda>project.
     if \<not> truthy project \<or> \<not> has_container then Inr None
     else
       and_then (get_prop project ''title'') (\<lambda>title.
       and_then (t title activeLang) (\<lambda>localized.
       and_then (to_string localized) (\<lambda>title_text.
       and_then (buildDetailTopbar activeLang) (\<lambda>topbar.
       and_then (el ''main'' ''case-study-main'' JUndefined) (\<lambda>main_el.
       and_then (buildCaseStudyHeader activeLang project) (\<lambda>header.
       and_then (detail_body ICONS activeLang project) (\<lambda>body_el.
       and_then buildFooter (\<lambda>footer.
       Inr (Some \<lparr>document_title =
                    title_text @ '' '' @ [CHR 0xE2, CHR 0x80, CHR 0x94] @ '' Mathis Thomsen'',
                  container_children =
                    [topbar,
                     appendChild (appendChild (setAttribute main_el ''id'' ''main'') header) body_el,
                     footer]\<rparr>))))))))))))"

section \<open>Shapes of content records\<close>

text \<open>The block types that \<^verbatim>\<open>renderBlock\<close> has a case for.\<close>

definition known_block_types :: "string list" where
  "known_block_types =
     [''stat_bar'', ''text'', ''timeline'', ''method_grid'', ''insight'',
      ''challenge_approach_outcome'', ''visual_slots'', ''key_takeaways'']"

definition has_known_type :: "jsval \<Rightarrow> bool" where
  "has_known_type block =
     (case get_prop block ''type'' of
        Inr (JStr ty) \<Rightarrow> ty \<in> set known_block_types
      | _ \<Rightarrow> False)"

text \<open>
  A disclaimer block in the body of a case study: a \<^verbatim>\<open>case-study__block\<close> wrapper
  around an \<^verbatim>\<open>aside\<close> of class \<^verbatim>\<open>cs-disclaimer\<close>.
\<close>

fun is_disclaimer_block :: "node \<Rightarrow> bool" where
  "is_disclaimer_block (Element tag cls attrs [Element tag' cls' attrs' children]) =
     (cls = ''case-study__block'' \<and> tag' = ''aside'' \<and> cls' = ''cs-disclaimer'')"
| "is_disclaimer_block n = False"

text \<open>
  The block that \<^verbatim>\<open>renderDetail\<close> appends for a confidential project: the wrapper
  around the result of \<^verbatim>\<open>renderDisclaimer()\<close>.
\<close>

definition disclaimer_block :: "string \<Rightarrow> node" where
  "disclaimer_block activeLang =
     Element ''div'' ''case-study__block'' [(''data-reveal'', [])]
       [Element ''aside'' ''cs-disclaimer'' []
          [Element ''p'' ''cs-disclaimer__label'' []
             [Markup (if activeLang = ''de'' then ''Vertraulich'' else ''Confidential'')],
           Element ''p'' ''cs-disclaimer__text'' []
             [Markup (if activeLang = ''de'' then disclaimer_de else disclaimer_en)]]]"

text \<open>
  Content that the renderers take without throwing. A bilingual field is absent, a
  string, or a mapping whose values are strings. \<open>own x k\<close> is the own property \<open>k\<close>
  of an object. A list payload is absent or an array of objects whose localized fields
  are bilingual fields; the icon of a method card is absent or a string.
\<close>

fun bilingual_field :: "jsval \<Rightarrow> bool" where
  "bilingual_field JUndefined = True"
| "bilingual_field JNull = True"
| "bilingual_field (JStr s) = True"
| "bilingual_field (JObj kvs) = list_all is_string (map snd kvs)"
| "bilingual_field v = False"

fun own :: "jsval \<Rightarrow> string \<Rightarrow> jsval" where
  "own (JObj kvs) k = (case map_of kvs k of Some v \<Rightarrow> v | None \<Rightarrow> JUndefined)"
| "own v k = JUndefined"

fun record_ok :: "string list \<Rightarrow> jsval \<Rightarrow> bool" where
  "record_ok ks (JObj kvs) = list_all (\<lambda>k. bilingual_field (own (JObj kvs) k)) ks"
| "record_ok ks v = False"

fun items_ok :: "(jsval \<Rightarrow> bool) \<Rightarrow> jsval \<Rightarrow> bool" where
  "items_ok ok JUndefined = True"
| "items_ok ok JNull = True"
| "items_ok ok (JArr xs) = list_all ok xs"
| "items_ok ok v = False"

definition icon_ok :: "jsval \<Rightarrow> bool" where
  "icon_ok method = (own method ''icon'' = JUndefined \<or> is_string (own method ''icon''))"

definition wf_block :: "jsval \<Rightarrow> bool" where
  "wf_block block =
     (case block of
        JObj kvs \<Rightarrow>
          (let ty = own block ''type'' in
           if ty = JStr ''stat_bar''
             then items_ok (record_ok [''value'', ''label'']) (own block ''stats'')
           else if ty = JStr ''text'' then bilingual_field (own block ''content'')
           else if ty = JStr ''timeline''
             then items_ok (record_ok [''phase'', ''title'', ''description'']) (own block ''phases'')
           else if ty = JStr ''method_grid''
             then items_ok (\<lambda>m. record_ok [''title'', ''description''] m \<and> icon_ok m)
                    (own block ''methods'')
           else if ty = JStr ''insight'' then bilingual_field (own block ''content'')
           else if ty = JStr ''challenge_approach_outcome''
             then list_all (\<lambda>k. bilingual_field (own block k))
                    [''challenge'', ''approach'', ''outcome'']
           else if ty = JStr ''visual_slots''
             then items_ok (record_ok [''caption'']) (own block ''slots'')
           else if ty = JStr ''key_takeaways''
             then items_ok (record_ok [''title'', ''description'']) (own block ''takeaways'')
           else True)
      | _ \<Rightarrow> False)"

text \<open>
  A case-study record whose header builds without throwing: an object whose title and
  meta fields are bilingual fields, whose tags are absent or an array of strings, and
  whose url is absent or a string.
\<close>

definition wf_project :: "jsval \<Rightarrow> bool" where
  "wf_project project =
     (case project of
        JObj kvs \<Rightarrow>
          list_all (\<lambda>k. bilingual_field (own project k))
            [''title'', ''year'', ''duration'', ''client'', ''role''] \<and>
          items_ok is_string (own project ''tags'') \<and>
          (own project ''url'' = JUndefined \<or> is_string (own project ''url''))
      | _ \<Rightarrow> False)"

text \<open>The icon table holds markup strings: \<open>ICONS k\<close> is a string or \<^verbatim>\<open>undefined\<close>.\<close>

definition icon_table :: "(string \<Rightarrow> jsval) \<Rightarrow> bool" where
  "icon_table ICONS = (\<forall>k. ICONS k = JUndefined \<or> is_string (ICONS k))"

text \<open>
  The rendering of a block of a known type: what the renderer of that type returns for
  the block (\<^verbatim>\<open>renderStatBar\<close> for \<^verbatim>\<open>stat_bar\<close>, \<^verbatim>\<open>renderText\<close> for
  \<^verbatim>\<open>text\<close>, and so on for the eight types).
\<close>

definition rendered_by :: "(string \<Rightarrow> jsval) \<Rightarrow> string \<Rightarrow> jsval \<Rightarrow> node \<Rightarrow> bool" where
  "rendered_by ICONS activeLang block n =
     (let ty = own block ''type'' in
      (ty = JStr ''stat_bar'' \<and> renderStatBar activeLang block = Inr n) \<or>
      (ty = JStr ''text'' \<and> renderText activeLang block = Inr n) \<or>
      (ty = JStr ''timeline'' \<and> renderTimeline activeLang block = Inr n) \<or>
      (ty = JStr ''method_grid'' \<and> renderMethodGrid ICONS activeLang block = Inr n) \<or>
      (ty = JStr ''insight'' \<and> renderInsight activeLang block = Inr n) \<or>
      (ty = JStr ''challenge_approach_outcome'' \<and>
         renderChallengeApproachOutcome activeLang block = Inr n) \<or>
      (ty = JStr ''visual_slots'' \<and> renderVisualSlots activeLang block = Inr n) \<or>
      (ty = JStr ''key_takeaways'' \<and> renderKeyTakeaways activeLang block = Inr n))"

section \<open>Properties of the localization resolver\<close>

text \<open>
  C1, as stated, fails: a mapping may contain the key with an empty value, and
  \<^verbatim>\<open>||\<close> then falls back to the German value. For the field
  \<^verbatim>\<open>{ en: '', de: 'Hallo' }\<close> and the language \<^verbatim>\<open>en\<close>, \<^verbatim>\<open>t\<close> returns
  \<^verbatim>\<open>'Hallo'\<close> and not the value at \<^verbatim>\<open>en\<close>.
\<close>

theorem t_empty_translation_counterexample:
  "''en'' \<in> set SUPPORTED_LANGS \<and>
   map_of [(''en'', JStr []), (''de'', JStr ''Hallo'')] ''en'' = Some (JStr []) \<and>
   t (JObj [(''en'', JStr []), (''de'', JStr ''Hallo'')]) ''en'' = Inr (JStr ''Hallo'') \<and>
   t (JObj [(''en'', JStr []), (''de'', JStr ''Hallo'')]) ''en'' \<noteq> Inr (JStr [])"
  by (simp add: t_def SUPPORTED_LANGS_def)

text \<open>
  C1, amended: for every supported language code \<open>L\<close> and every mapping \<open>F\<close> whose
  value at the key \<open>L\<close> is truthy (for a string: not empty), \<^verbatim>\<open>t(F, L)\<close> returns
  exactly that value.
\<close>

theorem t_returns_nonempty_translation:
  assumes "L \<in> set SUPPORTED_LANGS" and "map_of F L = Some v" and "truthy v"
  shows "t (JObj F) L = Inr v"
  using assms by (simp add: t_def)

text \<open>C1, amended, at the field \<^verbatim>\<open>{ de: 'Hallo', en: 'Hello' }\<close> and \<^verbatim>\<open>en\<close>.\<close>

theorem t_returns_nonempty_translation_witness:
  "''en'' \<in> set SUPPORTED_LANGS \<and>
   map_of [(''de'', JStr ''Hallo''), (''en'', JStr ''Hello'')] ''en'' = Some (JStr ''Hello'') \<and>
   truthy (JStr ''Hello'') \<and>
   t (JObj [(''de'', JStr ''Hallo''), (''en'', JStr ''Hello'')]) ''en'' = Inr (JStr ''Hello'')"
  using t_returns_nonempty_translation
          [of "''en''" "[(''de'', JStr ''Hallo''), (''en'', JStr ''Hello'')]" "JStr ''Hello''"]
  by (simp add: SUPPORTED_LANGS_def)

text \<open>
  C2, as stated, fails: the function reads \<^verbatim>\<open>localStorage\<close> itself and has no
  \<^verbatim>\<open>try\<close>. With no \<^verbatim>\<open>lang\<close> query parameter, in a browsing context where
  storage is blocked and the browser language is \<^verbatim>\<open>en-US\<close>, the read raises a
  SecurityError and \<^verbatim>\<open>resolveInitialLang\<close> ends with it: no code is returned.
\<close>

theorem resolveInitialLang_blocked_storage_counterexample:
  "resolveInitialLang None (Inl SecurityError) (Some ''en-US'') = Inl SecurityError \<and>
   resolveInitialLang None (Inl SecurityError) (Some ''en-US'') \<noteq> Inr ''en'' \<and>
   resolveInitialLang None (Inl SecurityError) (Some ''en-US'') \<noteq> Inr ''de''"
  by (simp add: resolveInitialLang_def)

text \<open>
  C2, amended: where the storage read returns, \<^verbatim>\<open>resolveInitialLang\<close> returns the
  query parameter if it is a supported code, else the stored value if it is a supported
  code, else the first two characters of the lowercased browser language if they are a
  supported code, else \<^verbatim>\<open>de\<close>; the result is a supported code and nothing is
  raised. A supported query parameter is returned before the storage is read, whatever
  that read would do. Otherwise an exception of the storage read ends the function.
\<close>

theorem resolveInitialLang_priority:
  "resolveInitialLang qLang (Inr stored) language =
     Inr (if qLang \<in> Some ` set SUPPORTED_LANGS then the qLang
          else if stored \<in> Some ` set SUPPORTED_LANGS then the stored
          else if take 2 (toLowerCase (case language of None \<Rightarrow> [] | Some l \<Rightarrow> l))
                    \<in> set SUPPORTED_LANGS
            then take 2 (toLowerCase (case language of None \<Rightarrow> [] | Some l \<Rightarrow> l))
          else ''de'') \<and>
   (\<exists>l \<in> set SUPPORTED_LANGS. resolveInitialLang qLang (Inr stored) language = Inr l) \<and>
   (qLang \<in> Some ` set SUPPORTED_LANGS \<longrightarrow>
      resolveInitialLang qLang getItem language = Inr (the qLang)) \<and>
   (qLang \<notin> Some ` set SUPPORTED_LANGS \<longrightarrow>
      resolveInitialLang qLang (Inl e) language = Inl e)"
  by (auto simp: resolveInitialLang_def SUPPORTED_LANGS_def Let_def split: option.splits)

text \<open>
  C2 on the examples of the specification: the query beats the stored value and the
  browser, the stored value beats the browser, the browser language is cut to its primary
  subtag, and \<^verbatim>\<open>fr-FR\<close> gives the default; where storage is blocked, a supported
  query parameter is returned and an unsupported one leaves the SecurityError.
\<close>

theorem resolveInitialLang_priority_examples:
  "resolveInitialLang (Some ''en'') (Inr (Some ''de'')) (Some ''de-DE'') = Inr ''en'' \<and>
   resolveInitialLang None (Inr (Some ''de'')) (Some ''en-US'') = Inr ''de'' \<and>
   resolveInitialLang (Some ''xx'') (Inr None) (Some ''EN-us'') = Inr ''en'' \<and>
   resolveInitialLang None (Inr None) (Some ''fr-FR'') = Inr ''de'' \<and>
   resolveInitialLang None (Inr None) None = Inr ''de'' \<and>
   resolveInitialLang (Some ''en'') (Inl SecurityError) (Some ''de-DE'') = Inr ''en'' \<and>
   resolveInitialLang (Some ''xx'') (Inl SecurityError) (Some ''de-DE'') = Inl SecurityError"
  using resolveInitialLang_priority [of "Some ''en''" "Some ''de''" "Some ''de-DE''"]
        resolveInitialLang_priority [of None "Some ''de''" "Some ''en-US''"]
        resolveInitialLang_priority [of "Some ''xx''" None "Some ''EN-us''"]
        resolveInitialLang_priority [of None None "Some ''fr-FR''"]
        resolveInitialLang_priority [of None None None]
        resolveInitialLang_priority
          [of "Some ''en''" None "Some ''de-DE''" "Inl SecurityError"]
        resolveInitialLang_priority
          [of "Some ''xx''" None "Some ''de-DE''" "Inl SecurityError" SecurityError]
  by (simp add: SUPPORTED_LANGS_def toLowerCase_def lower_char_def)

text \<open>
  C3: \<^verbatim>\<open>t\<close> never throws and never returns \<^verbatim>\<open>undefined\<close>, whatever the field and
  the language; an absent field gives the empty string; a string is returned as it is; a
  mapping gives its value at the language if that is truthy, else its value at \<^verbatim>\<open>de\<close>
  if that is truthy, else the empty string; and a mapping without the key of the language
  whose value at \<^verbatim>\<open>de\<close> is a string (or any truthy value) gives that value.
\<close>

theorem t_total:
  "(\<exists>v. t field lang = Inr v \<and> v \<noteq> JUndefined) \<and>
   t JUndefined lang = Inr (JStr []) \<and>
   t JNull lang = Inr (JStr []) \<and>
   t (JStr s) lang = Inr (JStr s) \<and>
   (lang \<in> set SUPPORTED_LANGS \<longrightarrow>
      t (JObj F) lang =
        Inr (let at_lang = (case map_of F lang of Some a \<Rightarrow> a | None \<Rightarrow> JUndefined);
                 at_de = (case map_of F ''de'' of Some b \<Rightarrow> b | None \<Rightarrow> JUndefined)
             in if truthy at_lang then at_lang else if truthy at_de then at_de else JStr [])) \<and>
   (lang \<in> set SUPPORTED_LANGS \<and> map_of F lang = None \<and> map_of F ''de'' = Some d \<and>
      (is_string d \<or> truthy d) \<longrightarrow> t (JObj F) lang = Inr d)"
proof -
  have total: "\<exists>v. t field lang = Inr v \<and> v \<noteq> JUndefined"
    by (cases field) (auto simp: t_def split: option.splits)
  have absent: "t JUndefined lang = Inr (JStr [])" "t JNull lang = Inr (JStr [])"
    by (simp_all add: t_def)
  have plain: "t (JStr s) lang = Inr (JStr s)"
    by (simp add: t_def)
  have mapping: "t (JObj F) lang =
        Inr (let at_lang = (case map_of F lang of Some a \<Rightarrow> a | None \<Rightarrow> JUndefined);
                 at_de = (case map_of F ''de'' of Some b \<Rightarrow> b | None \<Rightarrow> JUndefined)
             in if truthy at_lang then at_lang else if truthy at_de then at_de else JStr [])"
    by (simp add: t_def Let_def)
  have fallback: "t (JObj F) lang = Inr d"
    if "map_of F lang = None" "map_of F ''de'' = Some d" "is_string d \<or> truthy d"
    using that by (cases d) (auto simp: t_def)
  from total absent plain mapping fallback show ?thesis by blast
qed

text \<open>
  C3 at the field \<^verbatim>\<open>{ de: 'Hallo' }\<close> and the language \<^verbatim>\<open>en\<close>: the German value
  is returned.
\<close>

theorem t_total_witness:
  "''en'' \<in> set SUPPORTED_LANGS \<and>
   map_of [(''de'', JStr ''Hallo'')] ''en'' = None \<and>
   map_of [(''de'', JStr ''Hallo'')] ''de'' = Some (JStr ''Hallo'') \<and>
   is_string (JStr ''Hallo'') \<and>
   t (JObj [(''de'', JStr ''Hallo'')]) ''en'' = Inr (JStr ''Hallo'')"
  using t_total [of JNull "''en''" "[]" "[(''de'', JStr ''Hallo'')]" "JStr ''Hallo''"]
  by (simp add: SUPPORTED_LANGS_def)

section \<open>Properties of the date helpers\<close>

lemma split_on_no_sep: "c \<notin> set s \<Longrightarrow> split_on c s = [s]"
  by (induction s) auto

text \<open>
  C9: for a falsy value (absent or empty) \<^verbatim>\<open>formatDate\<close> returns \<^verbatim>\<open>heute\<close> for
  \<^verbatim>\<open>de\<close> and \<^verbatim>\<open>present\<close> for any other language; a string without a month part
  is returned unchanged; \<^verbatim>\<open>formatPeriod\<close> is the two formatted dates around space,
  en dash, space; and for the start \<^verbatim>\<open>2020-03\<close> with no end it ends in
  \<^verbatim>\<open>present\<close> for \<^verbatim>\<open>en\<close> and in \<^verbatim>\<open>heute\<close> for \<^verbatim>\<open>de\<close>, whatever the
  locale formatting of the start is.
\<close>

theorem formatDate_present_and_period:
  "(\<not> truthy v \<longrightarrow>
      formatDate fmt v lang = Inr (if lang = ''de'' then ''heute'' else ''present'')) \<and>
   (s \<noteq> [] \<and> CHR ''-'' \<notin> set s \<longrightarrow> formatDate fmt (JStr s) lang = Inr s) \<and>
   (formatDate fmt start lang = Inr a \<and> formatDate fmt end' lang = Inr b \<longrightarrow>
      formatPeriod fmt start end' lang =
        Inr (a @ '' '' @ [CHR 0xE2, CHR 0x80, CHR 0x93] @ '' '' @ b)) \<and>
   (\<exists>r. formatPeriod fmt (JStr ''2020-03'') JNull ''en'' = Inr r \<and> suffix ''present'' r) \<and>
   (\<exists>r. formatPeriod fmt (JStr ''2020-03'') JNull ''de'' = Inr r \<and> suffix ''heute'' r)"
proof -
  have absent: "formatDate fmt v lang = Inr (if lang = ''de'' then ''heute'' else ''present'')"
    if "\<not> truthy v"
    using that by (simp add: formatDate_def)
  have year_only: "formatDate fmt (JStr s) lang = Inr s" if "s \<noteq> []" "CHR ''-'' \<notin> set s"
    using that by (simp add: formatDate_def split_on_no_sep)
  have period: "formatPeriod fmt start end' lang =
                  Inr (a @ '' '' @ [CHR 0xE2, CHR 0x80, CHR 0x93] @ '' '' @ b)"
    if "formatDate fmt start lang = Inr a" "formatDate fmt end' lang = Inr b"
    using that by (simp add: formatPeriod_def en_dash_sep_def)
  have en: "formatPeriod fmt (JStr ''2020-03'') JNull ''en''
              = Inr (fmt ''en-GB'' ''2020'' ''03'' @ en_dash_sep @ ''present'')"
    by (simp add: formatPeriod_def formatDate_def)
  have de: "formatPeriod fmt (JStr ''2020-03'') JNull ''de''
              = Inr (fmt ''de-DE'' ''2020'' ''03'' @ en_dash_sep @ ''heute'')"
    by (simp add: formatPeriod_def formatDate_def)
  have "suffix ''present'' (fmt ''en-GB'' ''2020'' ''03'' @ en_dash_sep @ ''present'')"
    by (metis suffixI append.assoc)
  moreover have "suffix ''heute'' (fmt ''de-DE'' ''2020'' ''03'' @ en_dash_sep @ ''heute'')"
    by (metis suffixI append.assoc)
  ultimately show ?thesis using absent year_only period en de by simp
qed

text \<open>
  C9 at an absent end date and the year-only start \<^verbatim>\<open>2020\<close>, for \<^verbatim>\<open>en\<close>.
\<close>

theorem formatDate_present_and_period_witness:
  "\<not> truthy JNull \<and> formatDate (\<lambda>l y m. m @ ''/'' @ y) JNull ''en'' = Inr ''present'' \<and>
   ''2020'' \<noteq> [] \<and> CHR ''-'' \<notin> set ''2020'' \<and>
   formatDate (\<lambda>l y m. m @ ''/'' @ y) (JStr ''2020'') ''en'' = Inr ''2020'' \<and>
   formatPeriod (\<lambda>l y m. m @ ''/'' @ y) (JStr ''2020'') JNull ''en''
     = Inr (''2020 '' @ [CHR 0xE2, CHR 0x80, CHR 0x93] @ '' present'')"
  using formatDate_present_and_period
          [of JNull "\<lambda>l y m. m @ ''/'' @ y" "''en''" "''2020''" "JStr ''2020''" "''2020''"
              JNull "''present''"]
  by simp

section \<open>Properties of the export server\<close>

text \<open>What the guard of \<^verbatim>\<open>serveStatic\<close> ensures: the root is a prefix of the path, as a string.\<close>

lemma serveStatic_reads_prefixed:
  "fst (serveStatic ROOT readFile url) = Some p \<Longrightarrow> prefix ROOT p"
  by (auto simp: serveStatic_def Let_def split: if_splits)

text \<open>
  C4 does not hold of the code: the guard compares strings, not path segments. With the
  root \<^verbatim>\<open>/srv/site\<close>, the request \<^verbatim>\<open>GET /../site-backup/secret.txt\<close> is joined to
  \<^verbatim>\<open>/srv/site-backup/secret.txt\<close>, a file outside the root directory; the path starts
  with the text of the root, so the file is read and served with status 200.
\<close>

theorem serveStatic_serves_sibling_of_root:
  "serveStatic ''/srv/site''
     (\<lambda>p. if p = ''/srv/site-backup/secret.txt'' then File_data ''secret'' else ENOENT)
     ''/../site-backup/secret.txt'' =
     (Some ''/srv/site-backup/secret.txt'',
      \<lparr>status = 200, headers = [(''Content-Type'', ''application/octet-stream'')],
       body = ''secret''\<rparr>) \<and>
   path_join ''/srv/site'' ''/../site-backup/secret.txt'' = ''/srv/site-backup/secret.txt'' \<and>
   ''/srv/site-backup/secret.txt'' \<noteq> ''/srv/site'' \<and>
   \<not> prefix ''/srv/site/'' ''/srv/site-backup/secret.txt''"
  by code_simp

text \<open>
  C8: the export language \<open>L\<close> is the \<^verbatim>\<open>lang\<close> query parameter if that is a supported
  code and \<^verbatim>\<open>de\<close> otherwise; the browser session is run for \<open>L\<close>, and when it
  delivers the PDF the response is 200 with
  \<^verbatim>\<open>Content-Disposition: attachment; filename="CV_Mathis_Thomsen_<L in upper case>.pdf"\<close>.
\<close>

theorem handlePdfExport_filename:
  assumes "L = (if query_lang \<in> Some ` set SUPPORTED_LANGS then the query_lang else ''de'')"
    and "run_browser L (''http://localhost:'' @ PORT @ ''/cv/?lang='' @ L) = Captured pdf"
  shows "L \<in> set SUPPORTED_LANGS \<and>
         handlePdfExport PORT query_lang True run_browser =
           (\<lparr>status = 200,
             headers =
               [(''Content-Type'', ''application/pdf''),
                (''Content-Disposition'',
                   ''attachment; filename='' @ [CHR 0x22] @
                   ''CV_Mathis_Thomsen_'' @ toUpperCase L @ ''.pdf'' @ [CHR 0x22]),
                (''Content-Length'', decimal (length pdf))],
             body = pdf\<rparr>, True)"
proof -
  have lang: "(case query_lang of None \<Rightarrow> ''de''
               | Some l \<Rightarrow> if l \<in> set SUPPORTED_LANGS then l else ''de'') = L"
    unfolding assms(1) by (cases query_lang) auto
  have supported: "L \<in> set SUPPORTED_LANGS"
    unfolding assms(1) by (auto simp: SUPPORTED_LANGS_def)
  have "handlePdfExport PORT query_lang True run_browser =
           (\<lparr>status = 200,
             headers =
               [(''Content-Type'', ''application/pdf''),
                (''Content-Disposition'',
                   ''attachment; filename='' @ [CHR 0x22] @
                   ''CV_Mathis_Thomsen_'' @ toUpperCase L @ ''.pdf'' @ [CHR 0x22]),
                (''Content-Length'', decimal (length pdf))],
             body = pdf\<rparr>, True)"
    unfolding handlePdfExport_def lang Let_def using assms(2) by simp
  with supported show ?thesis by simp
qed

text \<open>
  C8 on the examples of the specification: \<^verbatim>\<open>?lang=en\<close> gives the file name
  \<^verbatim>\<open>CV_Mathis_Thomsen_EN.pdf\<close>; \<^verbatim>\<open>?lang=xx\<close> and a missing parameter give
  \<^verbatim>\<open>CV_Mathis_Thomsen_DE.pdf\<close>.
\<close>

theorem handlePdfExport_filename_witness:
  "map_of (headers (fst (handlePdfExport ''3000'' (Some ''en'') True (\<lambda>l u. Captured ''%PDF''))))
      ''Content-Disposition'' =
     Some (''attachment; filename='' @ [CHR 0x22] @ ''CV_Mathis_Thomsen_EN.pdf'' @ [CHR 0x22]) \<and>
   map_of (headers (fst (handlePdfExport ''3000'' (Some ''xx'') True (\<lambda>l u. Captured ''%PDF''))))
      ''Content-Disposition'' =
     Some (''attachment; filename='' @ [CHR 0x22] @ ''CV_Mathis_Thomsen_DE.pdf'' @ [CHR 0x22]) \<and>
   map_of (headers (fst (handlePdfExport ''3000'' None True (\<lambda>l u. Captured ''%PDF''))))
      ''Content-Disposition'' =
     Some (''attachment; filename='' @ [CHR 0x22] @ ''CV_Mathis_Thomsen_DE.pdf'' @ [CHR 0x22])"
  using handlePdfExport_filename
          [of "''en''" "Some ''en''" "\<lambda>l u. Captured ''%PDF''" "''3000''" "''%PDF''"]
        handlePdfExport_filename
          [of "''de''" "Some ''xx''" "\<lambda>l u. Captured ''%PDF''" "''3000''" "''%PDF''"]
        handlePdfExport_filename
          [of "''de''" None "\<lambda>l u. Captured ''%PDF''" "''3000''" "''%PDF''"]
  by (simp add: SUPPORTED_LANGS_def toUpperCase_def upper_char_def)

section \<open>Properties of the language toggle\<close>

text \<open>
  C7: for a language code that is not supported, \<^verbatim>\<open>setLang\<close> of either engine returns
  at once: the state (active language, stored value, \<^verbatim>\<open>html[lang]\<close>, buttons, rendered
  page) is the one before the call, no event is dispatched and nothing is thrown.
\<close>

theorem setLang_unsupported_noop:
  assumes "lang \<notin> set SUPPORTED_LANGS"
  shows "setLang renderAll setItem lang s = (s, None) \<and>
         setLang_portfolio render_overview render_detail setItem' lang p = (p, None)"
  using assms by (simp add: setLang_def setLang_portfolio_def)

text \<open>C7 at the code \<^verbatim>\<open>fr\<close>, on a CV page and on a portfolio page.\<close>

theorem setLang_unsupported_noop_witness:
  "''fr'' \<notin> set SUPPORTED_LANGS \<and>
   setLang (\<lambda>dat l (d::nat). (Suc d, None)) None ''fr''
     \<lparr>cv_activeLang = ''de'', cvData = JObj [], stored_lang = None, html_lang = ''de'',
      toggle_btns = [\<lparr>btn_lang = Some ''de'', aria_pressed = Some ''true'', aria_label = None\<rparr>],
      has_toggle = True, sections_dom = 0, dispatched = []\<rparr> =
     (\<lparr>cv_activeLang = ''de'', cvData = JObj [], stored_lang = None, html_lang = ''de'',
       toggle_btns = [\<lparr>btn_lang = Some ''de'', aria_pressed = Some ''true'', aria_label = None\<rparr>],
       has_toggle = True, sections_dom = 0, dispatched = []\<rparr>, None) \<and>
   setLang_portfolio (\<lambda>dat s. (s, None)) (\<lambda>dat slug s. (s, None)) None ''fr''
     \<lparr>pf_activeLang = ''en'', portfolioData = JObj [], pf_stored_lang = Some ''en'',
      pf_html_lang = ''en'', lang_btns = [], has_overview = True, detail_slug = None,
      page_dom = (0::nat), pf_dispatched = []\<rparr> =
     (\<lparr>pf_activeLang = ''en'', portfolioData = JObj [], pf_stored_lang = Some ''en'',
       pf_html_lang = ''en'', lang_btns = [], has_overview = True, detail_slug = None,
       page_dom = 0, pf_dispatched = []\<rparr>, None)"
  using setLang_unsupported_noop [of "''fr''"]
  by (simp add: SUPPORTED_LANGS_def)

section \<open>Properties of the block renderers\<close>

subsection \<open>Sequencing and element construction\<close>

lemma and_then_Inr [simp]: "and_then (Inr x) f = f x"
  by (simp add: and_then_def)

lemma and_then_Inl [simp]: "and_then (Inl e) f = Inl e"
  by (simp add: and_then_def)

lemma and_then_eq_Inr: "and_then m f = Inr y \<longleftrightarrow> (\<exists>x. m = Inr x \<and> f x = Inr y)"
  by (cases m) simp_all

lemma el_plain [simp]: "el tag cls JUndefined = Inr (Element tag cls [] [])"
  by (simp add: el_def)

lemma el_string [simp]: "el tag cls (JStr s) = Inr (Element tag cls [] (markup s))"
  by (simp add: el_def set_innerHTML_def)

lemma el_eq_Inr:
  "el tag cls html = Inr n \<Longrightarrow> \<exists>ch. n = Element tag cls [] ch"
  by (auto simp: el_def set_innerHTML_def and_then_eq_Inr split: if_splits)

lemma section_label_eq [simp]:
  "section_label s = Inr (Element ''p'' ''cs-section-label'' [] (text_nodes s))"
  by (simp add: section_label_def)

lemma t_result: "t v lang = Inr r \<Longrightarrow> r \<noteq> JNull \<and> r \<noteq> JUndefined"
  by (cases v) (auto simp: t_def split: if_splits option.splits)

lemma localized_el_eq_Inr:
  "localized_el al tag cls x field = Inr n \<Longrightarrow> \<exists>ch. n = Element tag cls [] ch"
  by (auto simp: localized_el_def and_then_eq_Inr dest: el_eq_Inr)

lemma forEach_append_built:
  "forEach_append (\<lambda>x. and_then (f x) (\<lambda>c. Inr (Some c))) xs (Element tag cls attrs ch) = Inr n
   \<Longrightarrow> \<exists>new. n = Element tag cls attrs (ch @ new) \<and> map f xs = map Inr new"
proof (induction xs arbitrary: ch)
  case Nil
  then show ?case by simp
next
  case (Cons x xs)
  from Cons.prems obtain c where c: "f x = Inr c"
    by (cases "f x") simp_all
  with Cons.prems
  have "forEach_append (\<lambda>x. and_then (f x) (\<lambda>c. Inr (Some c))) xs
          (Element tag cls attrs ((ch @ [c]))) = Inr n"
    by simp
  from Cons.IH [OF this] obtain new
    where "n = Element tag cls attrs ((ch @ [c]) @ new)" "map f xs = map Inr new"
    by blast
  with c have "n = Element tag cls attrs (ch @ (c # new)) \<and> map f (x # xs) = map Inr (c # new)"
    by simp
  then show ?case by blast
qed

lemma or_empty_array [simp]: "or_empty (JArr xs) = Inr xs"
  by (simp add: or_empty_def)

lemma appendChild_Element [simp]:
  "appendChild (Element tag cls attrs ch) c = Element tag cls attrs (ch @ [c])"
  by simp

lemma if_Inr: "(if c then Inr a else Inr b) = Inr (if c then a else b)"
  by simp

subsection \<open>Loops that append children\<close>

lemma forEach_append_root:
  "forEach_append build xs (Element tag cls attrs ch) = Inr n
   \<Longrightarrow> \<exists>new. n = Element tag cls attrs (ch @ new)"
proof (induction xs arbitrary: ch)
  case Nil
  then show ?case by auto
next
  case (Cons x xs)
  show ?case
  proof (cases "build x")
    case (Inl e)
    with Cons.prems show ?thesis by simp
  next
    case (Inr r)
    show ?thesis
    proof (cases r)
      case None
      with Inr Cons.prems Cons.IH show ?thesis by simp
    next
      case (Some c)
      with Inr Cons.prems
      have "forEach_append build xs (Element tag cls attrs (ch @ [c])) = Inr n" by simp
      from Cons.IH [OF this] show ?thesis by auto
    qed
  qed
qed

lemma forEach_append_filter:
  "(\<And>x. x \<in> set xs \<Longrightarrow> \<not> P x \<Longrightarrow> build x = Inr None)
   \<Longrightarrow> forEach_append build xs parent = forEach_append build (filter P xs) parent"
  by (induction xs arbitrary: parent) (auto split: sum.splits option.splits)

lemma forEach_append_map:
  "(\<And>x. x \<in> set xs \<Longrightarrow> build x = Inr (Some (g x)))
   \<Longrightarrow> forEach_append build xs (Element tag cls attrs ch)
       = Inr (Element tag cls attrs (ch @ map g xs))"
  by (induction xs arbitrary: ch) auto

subsection \<open>The entry of a timeline phase\<close>

lemma timeline_phase_entry:
  assumes "timeline_phase al phase = Inr entry"
  shows "\<exists>wip ph rawLabel s title desc.
           get_prop phase ''wip'' = Inr wip \<and> get_prop phase ''phase'' = Inr ph \<and>
           t ph al = Inr rawLabel \<and> to_string rawLabel = Inr s \<and>
           entry =
             Element ''div''
               (if wip = JBool True
                then ''cs-timeline__phase-entry cs-timeline__phase-entry--wip''
                else ''cs-timeline__phase-entry'') []
               ([Element ''p'' ''cs-timeline__phase-num'' []
                   (text_nodes (if digits_only s then ''Phase '' @ s else s))] @
                (if wip = JBool True
                 then [Element ''span'' ''cs-timeline__phase-wip-badge'' []
                         [Markup (if al = ''de'' then ''In Arbeit'' else ''In Progress'')]]
                 else []) @
                [title, desc])"
proof -
  from assms obtain wip where wip: "get_prop phase ''wip'' = Inr wip"
    by (cases "get_prop phase ''wip''") (simp_all add: timeline_phase_def)
  from assms obtain ph where ph: "get_prop phase ''phase'' = Inr ph"
    by (cases "get_prop phase ''phase''") (simp_all add: timeline_phase_def wip)
  from assms obtain rawLabel where raw: "t ph al = Inr rawLabel"
    by (cases "t ph al") (simp_all add: timeline_phase_def wip ph)
  from assms obtain s where s: "to_string rawLabel = Inr s"
    by (cases "to_string rawLabel") (simp_all add: timeline_phase_def wip ph raw)
  from raw have nn: "rawLabel \<noteq> JNull" "rawLabel \<noteq> JUndefined"
    using t_result by blast+
  have badge: "markup (if al = ''de'' then ''In Arbeit'' else ''In Progress'')
                 = [Markup (if al = ''de'' then ''In Arbeit'' else ''In Progress'')]"
    by (simp add: markup_def)
  from assms obtain title
    where title: "localized_el al ''h3'' ''cs-timeline__phase-title'' phase ''title'' = Inr title"
    by (cases "localized_el al ''h3'' ''cs-timeline__phase-title'' phase ''title''")
       (simp_all add: timeline_phase_def wip ph raw s if_Inr cong: if_cong)
  from assms obtain desc
    where desc: "localized_el al ''p'' ''cs-timeline__phase-desc'' phase ''description'' = Inr desc"
    by (cases "localized_el al ''p'' ''cs-timeline__phase-desc'' phase ''description''")
       (simp_all add: timeline_phase_def wip ph raw s title if_Inr cong: if_cong)
  from assms have "entry =
             Element ''div''
               (if wip = JBool True
                then ''cs-timeline__phase-entry cs-timeline__phase-entry--wip''
                else ''cs-timeline__phase-entry'') []
               ([Element ''p'' ''cs-timeline__phase-num'' []
                   (text_nodes (if digits_only s then ''Phase '' @ s else s))] @
                (if wip = JBool True
                 then [Element ''span'' ''cs-timeline__phase-wip-badge'' []
                         [Markup (if al = ''de'' then ''In Arbeit'' else ''In Progress'')]]
                 else []) @
                [title, desc])"
    by (simp add: timeline_phase_def wip ph raw s nn title desc badge if_Inr cong: if_cong split: if_splits)
  with wip ph raw s show ?thesis by blast
qed

subsection \<open>The dispatch and the roots of the rendered blocks\<close>

lemma block_wrapper_eq [simp]:
  "block_wrapper r = Inr (Element ''div'' ''case-study__block'' [(''data-reveal'', [])] [r])"
  by (simp add: block_wrapper_def)

lemma section_block_None: "renderBlock ICONS al b = Inr None \<Longrightarrow> section_block ICONS al b = Inr None"
  by (simp add: section_block_def)

lemma section_block_Some:
  "renderBlock ICONS al b = Inr (Some r)
   \<Longrightarrow> section_block ICONS al b
       = Inr (Some (Element ''div'' ''case-study__block'' [(''data-reveal'', [])] [r]))"
  by (simp add: section_block_def)

lemma get_prop_defined:
  "b \<noteq> JNull \<Longrightarrow> b \<noteq> JUndefined \<Longrightarrow> get_prop b k = Inr (own b k)"
  by (cases b) simp_all

lemma renderBlock_unknown:
  assumes "b \<noteq> JNull" "b \<noteq> JUndefined" "\<not> has_known_type b"
  shows "renderBlock ICONS al b = Inr None"
proof -
  from assms(1,2) have ty: "get_prop b ''type'' = Inr (own b ''type'')"
    by (rule get_prop_defined)
  with assms(3) have "\<forall>k \<in> set known_block_types. own b ''type'' \<noteq> JStr k"
    by (auto simp: has_known_type_def)
  then show ?thesis
    by (simp add: renderBlock_def ty known_block_types_def)
qed

lemma renderStatBar_root:
  "renderStatBar al b = Inr n \<Longrightarrow> \<exists>ch. n = Element ''div'' ''cs-stat-bar'' [] ch"
  by (auto simp: renderStatBar_def and_then_eq_Inr dest: forEach_append_root)

lemma renderText_root: "renderText al b = Inr n \<Longrightarrow> \<exists>ch. n = Element ''p'' ''cs-text'' [] ch"
  by (auto simp: renderText_def dest: localized_el_eq_Inr)

lemma renderTimeline_root: "renderTimeline al b = Inr n \<Longrightarrow> \<exists>ch. n = Element ''div'' [] [] ch"
  by (auto simp: renderTimeline_def and_then_eq_Inr)

lemma renderMethodGrid_root:
  "renderMethodGrid ICONS al b = Inr n \<Longrightarrow> \<exists>ch. n = Element ''div'' [] [] ch"
  by (auto simp: renderMethodGrid_def and_then_eq_Inr)

lemma renderInsight_root:
  "renderInsight al b = Inr n \<Longrightarrow> \<exists>ch. n = Element ''aside'' ''cs-insight'' [] ch"
  by (auto simp: renderInsight_def and_then_eq_Inr)

lemma renderChallengeApproachOutcome_root:
  "renderChallengeApproachOutcome al b = Inr n \<Longrightarrow> \<exists>ch. n = Element ''div'' ''cs-outcome'' [] ch"
  by (auto simp: renderChallengeApproachOutcome_def simp del: forEach_append.simps
        dest: forEach_append_root)

lemma renderVisualSlots_root:
  "renderVisualSlots al b = Inr n \<Longrightarrow> \<exists>ch. n = Element ''div'' [] [] ch"
  by (auto simp: renderVisualSlots_def and_then_eq_Inr)

lemma renderKeyTakeaways_root:
  "renderKeyTakeaways al b = Inr n \<Longrightarrow> \<exists>ch. n = Element ''div'' [] [] ch"
  by (auto simp: renderKeyTakeaways_def and_then_eq_Inr)

lemma renderBlock_root:
  assumes "renderBlock ICONS al b = Inr (Some n)"
  shows "\<exists>tag cls ch. n = Element tag cls [] ch \<and> cls \<noteq> ''cs-disclaimer''"
proof -
  from assms obtain ty where ty: "get_prop b ''type'' = Inr ty"
    by (auto simp: renderBlock_def and_then_eq_Inr)
  from assms ty consider
      "renderStatBar al b = Inr n" | "renderText al b = Inr n" | "renderTimeline al b = Inr n"
    | "renderMethodGrid ICONS al b = Inr n" | "renderInsight al b = Inr n"
    | "renderChallengeApproachOutcome al b = Inr n" | "renderVisualSlots al b = Inr n"
    | "renderKeyTakeaways al b = Inr n"
    by (auto simp: renderBlock_def and_then_eq_Inr split: if_splits)
  then show ?thesis
  proof cases
    case 1 from renderStatBar_root [OF this] show ?thesis by auto
  next
    case 2 from renderText_root [OF this] show ?thesis by auto
  next
    case 3 from renderTimeline_root [OF this] show ?thesis by auto
  next
    case 4 from renderMethodGrid_root [OF this] show ?thesis by auto
  next
    case 5 from renderInsight_root [OF this] show ?thesis by auto
  next
    case 6 from renderChallengeApproachOutcome_root [OF this] show ?thesis by auto
  next
    case 7 from renderVisualSlots_root [OF this] show ?thesis by auto
  next
    case 8 from renderKeyTakeaways_root [OF this] show ?thesis by auto
  qed
qed

lemma renderBlock_rendered_by:
  assumes "renderBlock ICONS al b = Inr (Some n)"
  shows "rendered_by ICONS al b n"
proof -
  from assms obtain ty where get: "get_prop b ''type'' = Inr ty"
    by (auto simp: renderBlock_def and_then_eq_Inr)
  then have "b \<noteq> JNull" "b \<noteq> JUndefined" by auto
  then have "get_prop b ''type'' = Inr (own b ''type'')" by (rule get_prop_defined)
  with get have ty: "own b ''type'' = ty" by simp
  from assms show ?thesis
    unfolding renderBlock_def get rendered_by_def ty Let_def
    by (auto simp: and_then_eq_Inr split: if_splits)
qed

lemma section_block_not_disclaimer:
  assumes "section_block ICONS al b = Inr (Some w)"
  shows "\<not> is_disclaimer_block w"
proof -
  from assms obtain r where r: "renderBlock ICONS al b = Inr (Some r)"
    and w: "w = Element ''div'' ''case-study__block'' [(''data-reveal'', [])] [r]"
    by (auto simp: section_block_def and_then_eq_Inr split: option.splits)
  from renderBlock_root [OF r] w show ?thesis by auto
qed

lemma section_loop_authored:
  "forEach_append (section_block ICONS al) blocks (Element tag cls attrs ch) = Inr n
   \<Longrightarrow> \<exists>new. n = Element tag cls attrs (ch @ new) \<and> length new \<le> length blocks \<and>
             list_all (\<lambda>w. \<not> is_disclaimer_block w) new"
proof (induction blocks arbitrary: ch)
  case Nil
  then show ?case by auto
next
  case (Cons b blocks)
  show ?case
  proof (cases "section_block ICONS al b")
    case (Inl e)
    with Cons.prems show ?thesis by simp
  next
    case (Inr r)
    show ?thesis
    proof (cases r)
      case None
      with Inr Cons.prems
      have "forEach_append (section_block ICONS al) blocks (Element tag cls attrs ch) = Inr n"
        by simp
      from Cons.IH [OF this] show ?thesis by auto
    next
      case (Some w)
      with Inr have nd: "\<not> is_disclaimer_block w"
        using section_block_not_disclaimer by blast
      from Some Inr Cons.prems
      have "forEach_append (section_block ICONS al) blocks (Element tag cls attrs (ch @ [w])) = Inr n"
        by simp
      from Cons.IH [OF this] obtain new
        where "n = Element tag cls attrs ((ch @ [w]) @ new)" "length new \<le> length blocks"
          "list_all (\<lambda>w. \<not> is_disclaimer_block w) new"
        by blast
      with nd have "n = Element tag cls attrs (ch @ (w # new)) \<and>
                    length (w # new) \<le> length (b # blocks) \<and>
                    list_all (\<lambda>w. \<not> is_disclaimer_block w) (w # new)"
        by simp
      then show ?thesis by blast
    qed
  qed
qed

lemma renderDisclaimer_eq:
  "renderDisclaimer al =
     Inr (Element ''aside'' ''cs-disclaimer'' []
            [Element ''p'' ''cs-disclaimer__label'' []
               [Markup (if al = ''de'' then ''Vertraulich'' else ''Confidential'')],
             Element ''p'' ''cs-disclaimer__text'' []
               [Markup (if al = ''de'' then disclaimer_de else disclaimer_en)]])"
  by (simp add: renderDisclaimer_def markup_def disclaimer_de_def disclaimer_en_def)

subsection \<open>Well-formed content renders without an exception\<close>

lemma is_string_iff: "is_string v \<longleftrightarrow> (\<exists>s. v = JStr s)"
  by (cases v) simp_all

lemma t_bilingual:
  assumes "bilingual_field v"
  shows "\<exists>s. t v al = Inr (JStr s)"
proof (cases v)
  case (JObj kvs)
  have str: "\<exists>s. a = JStr s" if "map_of kvs k = Some a" for k a
  proof -
    from that have "a \<in> snd ` set kvs"
      by (metis map_of_SomeD snd_conv image_eqI)
    with assms JObj show ?thesis
      by (auto simp: list_all_iff is_string_iff)
  qed
  show ?thesis
    using str [of al] str [of "''de''"]
    by (auto simp: JObj t_def split: option.splits)
qed (use assms in \<open>simp_all add: t_def\<close>)

lemma localized_el_ok:
  assumes "bilingual_field (own (JObj kvs) k)"
  shows "\<exists>n. localized_el al tag cls (JObj kvs) k = Inr n"
proof -
  from t_bilingual [OF assms] obtain s
    where "t (case map_of kvs k of Some v \<Rightarrow> v | None \<Rightarrow> JUndefined) al = Inr (JStr s)"
    by auto
  then show ?thesis by (simp add: localized_el_def)
qed

lemma record_ok_field:
  assumes "record_ok ks x" and "k \<in> set ks"
  shows "\<exists>n. localized_el al tag cls x k = Inr n"
proof -
  from assms(1) obtain kvs where x: "x = JObj kvs"
    by (cases x) simp_all
  with assms have "bilingual_field (own (JObj kvs) k)"
    by (simp add: list_all_iff)
  from localized_el_ok [OF this] x show ?thesis by simp
qed

lemma record_ok_object: "record_ok ks x \<Longrightarrow> \<exists>kvs. x = JObj kvs"
  by (cases x) simp_all

lemma forEach_append_ok:
  "(\<And>x. x \<in> set xs \<Longrightarrow> \<exists>r. build x = Inr r)
   \<Longrightarrow> \<exists>n. forEach_append build xs parent = Inr n"
proof (induction xs arbitrary: parent)
  case Nil
  then show ?case by simp
next
  case (Cons x xs)
  from Cons.prems obtain r where r: "build x = Inr r" by auto
  from Cons.prems have rest: "\<And>y. y \<in> set xs \<Longrightarrow> \<exists>r. build y = Inr r" by simp
  show ?case
  proof (cases r)
    case None
    with r Cons.IH [OF rest] show ?thesis by simp
  next
    case (Some c)
    with r Cons.IH [OF rest] show ?thesis by simp
  qed
qed

lemma items_ok_list:
  assumes "items_ok ok v"
  shows "\<exists>xs. or_empty v = Inr xs \<and> (\<forall>x\<in>set xs. ok x)"
  using assms by (cases v) (auto simp: or_empty_def list_all_iff)

lemma stat_item_ok:
  assumes "record_ok [''value'', ''label''] stat"
  shows "\<exists>n. stat_item al stat = Inr n"
proof -
  have "\<exists>n. localized_el al ''span'' ''cs-stat__value'' stat ''value'' = Inr n"
    by (rule record_ok_field [OF assms]) simp
  moreover have "\<exists>n. localized_el al ''span'' ''cs-stat__label'' stat ''label'' = Inr n"
    by (rule record_ok_field [OF assms]) simp
  ultimately obtain a b
    where "localized_el al ''span'' ''cs-stat__value'' stat ''value'' = Inr a"
      and "localized_el al ''span'' ''cs-stat__label'' stat ''label'' = Inr b"
    by auto
  then show ?thesis by (simp add: stat_item_def)
qed

lemma timeline_phase_ok:
  assumes "record_ok [''phase'', ''title'', ''description''] phase"
  shows "\<exists>n. timeline_phase al phase = Inr n"
proof -
  from record_ok_object [OF assms] obtain kvs where phase: "phase = JObj kvs" by auto
  with assms have "bilingual_field (own (JObj kvs) ''phase'')" by simp
  from t_bilingual [OF this] obtain s
    where s: "t (case map_of kvs ''phase'' of Some v \<Rightarrow> v | None \<Rightarrow> JUndefined) al = Inr (JStr s)"
    by auto
  have "\<exists>n. localized_el al ''h3'' ''cs-timeline__phase-title'' phase ''title'' = Inr n"
    by (rule record_ok_field [OF assms]) simp
  moreover have "\<exists>n. localized_el al ''p'' ''cs-timeline__phase-desc'' phase ''description'' = Inr n"
    by (rule record_ok_field [OF assms]) simp
  ultimately obtain a b
    where "localized_el al ''h3'' ''cs-timeline__phase-title'' phase ''title'' = Inr a"
      and "localized_el al ''p'' ''cs-timeline__phase-desc'' phase ''description'' = Inr b"
    by auto
  with s phase show ?thesis by (simp add: timeline_phase_def)
qed

lemma method_card_ok:
  assumes "icon_table ICONS" and "record_ok [''title'', ''description''] method" and "icon_ok method"
  shows "\<exists>n. method_card ICONS al method = Inr n"
proof -
  from record_ok_object [OF assms(2)] obtain kvs where m: "method = JObj kvs" by auto
  from assms(3) m obtain k
    where k: "to_string (case map_of kvs ''icon'' of Some v \<Rightarrow> v | None \<Rightarrow> JUndefined) = Inr k"
    by (auto simp: icon_ok_def is_string_iff)
  from assms(1) obtain s where "(if truthy (ICONS k) then ICONS k else JStr []) = JStr s"
    unfolding icon_table_def by (metis is_string_iff truthy.simps(1))
  then have icon: "\<exists>n. set_innerHTML (Element ''div'' ''cs-method__icon'' [] [])
                          (if truthy (ICONS k) then ICONS k else JStr []) = Inr n"
    by (simp add: set_innerHTML_def)
  have "\<exists>n. localized_el al ''h3'' ''cs-method__title'' method ''title'' = Inr n"
    by (rule record_ok_field [OF assms(2)]) simp
  moreover have "\<exists>n. localized_el al ''p'' ''cs-method__desc'' method ''description'' = Inr n"
    by (rule record_ok_field [OF assms(2)]) simp
  ultimately obtain a b
    where "localized_el al ''h3'' ''cs-method__title'' method ''title'' = Inr a"
      and "localized_el al ''p'' ''cs-method__desc'' method ''description'' = Inr b"
    by auto
  with icon k m show ?thesis by (auto simp: method_card_def)
qed

lemma visual_slot_ok:
  assumes "record_ok [''caption''] slot"
  shows "\<exists>n. visual_slot al slot = Inr n"
proof -
  have "\<exists>n. localized_el al ''p'' ''cs-visual-slot__caption'' slot ''caption'' = Inr n"
    by (rule record_ok_field [OF assms]) simp
  then obtain a where "localized_el al ''p'' ''cs-visual-slot__caption'' slot ''caption'' = Inr a"
    by auto
  then show ?thesis by (simp add: visual_slot_def set_innerHTML_def)
qed

lemma takeaway_card_ok:
  assumes "record_ok [''title'', ''description''] item"
  shows "\<exists>n. takeaway_card al item = Inr n"
proof -
  have "\<exists>n. localized_el al ''h3'' ''cs-key-takeaway__title'' item ''title'' = Inr n"
    by (rule record_ok_field [OF assms]) simp
  moreover have "\<exists>n. localized_el al ''p'' ''cs-key-takeaway__desc'' item ''description'' = Inr n"
    by (rule record_ok_field [OF assms]) simp
  ultimately obtain a b
    where "localized_el al ''h3'' ''cs-key-takeaway__title'' item ''title'' = Inr a"
      and "localized_el al ''p'' ''cs-key-takeaway__desc'' item ''description'' = Inr b"
    by auto
  then show ?thesis by (simp add: takeaway_card_def)
qed

lemma outcome_item_ok:
  assumes "bilingual_field (own (JObj kvs) key)"
    and "key \<in> set [''challenge'', ''approach'', ''outcome'']"
  shows "\<exists>r. outcome_item al (JObj kvs) key = Inr r"
proof -
  from assms(2) obtain labels where labels: "get_prop LABELS key = Inr labels"
    and label: "\<exists>l. get_prop labels al = Inr l \<and> (l = JUndefined \<or> is_string l)"
    by (auto simp: LABELS_def split: option.splits)
  from label obtain l where l: "get_prop labels al = Inr l" "l = JUndefined \<or> is_string l"
    by auto
  then have "\<exists>n. el ''p'' ''cs-outcome__label'' l = Inr n"
    by (auto simp: is_string_iff)
  moreover from localized_el_ok [OF assms(1)]
  have "\<exists>n. localized_el al ''p'' ''cs-outcome__text'' (JObj kvs) key = Inr n" .
  ultimately show ?thesis
    using labels l by (auto simp: outcome_item_def)
qed

lemma list_loop_ok:
  assumes "items_ok ok v" and "\<And>x. ok x \<Longrightarrow> \<exists>c. f x = Inr c"
  shows "\<exists>xs n. or_empty v = Inr xs \<and>
           forEach_append (\<lambda>x. and_then (f x) (\<lambda>c. Inr (Some c))) xs parent = Inr n"
proof -
  from items_ok_list [OF assms(1)] obtain xs
    where xs: "or_empty v = Inr xs" "\<forall>x\<in>set xs. ok x"
    by auto
  have "\<exists>r. and_then (f x) (\<lambda>c. Inr (Some c)) = Inr r" if "x \<in> set xs" for x
    using assms(2) [of x] xs(2) that by auto
  from forEach_append_ok [of xs "\<lambda>x. and_then (f x) (\<lambda>c. Inr (Some c))" parent, OF this] xs(1)
  show ?thesis by auto
qed

lemma renderStatBar_ok:
  assumes "items_ok (record_ok [''value'', ''label'']) (own (JObj kvs) ''stats'')"
  shows "\<exists>n. renderStatBar al (JObj kvs) = Inr n"
  using list_loop_ok [OF assms, of "stat_item al" "Element ''div'' ''cs-stat-bar'' [] []"]
    stat_item_ok [of _ al]
  by (auto simp: renderStatBar_def)

lemma renderText_ok:
  assumes "bilingual_field (own (JObj kvs) ''content'')"
  shows "\<exists>n. renderText al (JObj kvs) = Inr n"
  using localized_el_ok [OF assms] by (simp add: renderText_def)

lemma renderInsight_ok:
  assumes "bilingual_field (own (JObj kvs) ''content'')"
  shows "\<exists>n. renderInsight al (JObj kvs) = Inr n"
  using localized_el_ok [OF assms, of al "''p''" "''cs-insight__text''"]
  by (auto simp: renderInsight_def)

lemma renderTimeline_ok:
  assumes "items_ok (record_ok [''phase'', ''title'', ''description'']) (own (JObj kvs) ''phases'')"
  shows "\<exists>n. renderTimeline al (JObj kvs) = Inr n"
  using list_loop_ok [OF assms, of "timeline_phase al" "Element ''div'' ''cs-timeline'' [] []"]
    timeline_phase_ok [of _ al]
  by (auto simp: renderTimeline_def)

lemma renderMethodGrid_ok:
  assumes "icon_table ICONS"
    and "items_ok (\<lambda>m. record_ok [''title'', ''description''] m \<and> icon_ok m)
           (own (JObj kvs) ''methods'')"
  shows "\<exists>n. renderMethodGrid ICONS al (JObj kvs) = Inr n"
  using list_loop_ok [OF assms(2), of "method_card ICONS al" "Element ''div'' ''cs-method-grid'' [] []"]
    method_card_ok [OF assms(1), of _ al]
  by (auto simp: renderMethodGrid_def)

lemma renderVisualSlots_ok:
  assumes "items_ok (record_ok [''caption'']) (own (JObj kvs) ''slots'')"
  shows "\<exists>n. renderVisualSlots al (JObj kvs) = Inr n"
  using list_loop_ok [OF assms, of "visual_slot al" "Element ''div'' ''cs-visual-slots'' [] []"]
    visual_slot_ok [of _ al]
  by (auto simp: renderVisualSlots_def)

lemma renderKeyTakeaways_ok:
  assumes "items_ok (record_ok [''title'', ''description'']) (own (JObj kvs) ''takeaways'')"
  shows "\<exists>n. renderKeyTakeaways al (JObj kvs) = Inr n"
  using list_loop_ok [OF assms, of "takeaway_card al" "Element ''div'' ''cs-key-takeaways'' [] []"]
    takeaway_card_ok [of _ al]
  by (auto simp: renderKeyTakeaways_def)

lemma renderChallengeApproachOutcome_ok:
  assumes "list_all (\<lambda>k. bilingual_field (own (JObj kvs) k)) [''challenge'', ''approach'', ''outcome'']"
  shows "\<exists>n. renderChallengeApproachOutcome al (JObj kvs) = Inr n"
proof -
  have "\<exists>r. outcome_item al (JObj kvs) key = Inr r"
    if "key \<in> set [''challenge'', ''approach'', ''outcome'']" for key
    using that assms by (intro outcome_item_ok) (auto simp del: own.simps)
  from forEach_append_ok [of "[''challenge'', ''approach'', ''outcome'']"
         "outcome_item al (JObj kvs)" "Element ''div'' ''cs-outcome'' [] []", OF this]
  show ?thesis
    by (simp add: renderChallengeApproachOutcome_def del: forEach_append.simps)
qed

lemma renderBlock_ok:
  assumes "icon_table ICONS" and "wf_block b" and "has_known_type b"
  shows "\<exists>n. renderBlock ICONS al b = Inr (Some n)"
proof -
  from assms(2) obtain kvs where b: "b = JObj kvs"
    by (cases b) (simp_all add: wf_block_def)
  from assms(3) b obtain ty where get: "get_prop (JObj kvs) ''type'' = Inr (JStr ty)"
    and known: "ty \<in> set known_block_types"
    unfolding has_known_type_def
    by (cases "get_prop (JObj kvs) ''type''") (auto split: jsval.splits simp del: get_prop.simps)
  from get have ty: "own (JObj kvs) ''type'' = JStr ty" by simp
  have c1: "\<exists>n. renderBlock ICONS al (JObj kvs) = Inr (Some n)" if "ty = ''stat_bar''"
  proof -
    from that assms(2) ty have "items_ok (record_ok [''value'', ''label'']) (own (JObj kvs) ''stats'')"
      unfolding b wf_block_def by (simp del: own.simps)
    from renderStatBar_ok [OF this, of al] obtain n where "renderStatBar al (JObj kvs) = Inr n" by blast
    with that show ?thesis
      unfolding renderBlock_def get by simp
  qed
  have c2: "\<exists>n. renderBlock ICONS al (JObj kvs) = Inr (Some n)" if "ty = ''text''"
  proof -
    from that assms(2) ty have "bilingual_field (own (JObj kvs) ''content'')"
      unfolding b wf_block_def by (simp del: own.simps)
    from renderText_ok [OF this, of al] obtain n where "renderText al (JObj kvs) = Inr n" by blast
    with that show ?thesis
      unfolding renderBlock_def get by simp
  qed
  have c3: "\<exists>n. renderBlock ICONS al (JObj kvs) = Inr (Some n)" if "ty = ''timeline''"
  proof -
    from that assms(2) ty have "items_ok (record_ok [''phase'', ''title'', ''description'']) (own (JObj kvs) ''phases'')"
      unfolding b wf_block_def by (simp del: own.simps)
    from renderTimeline_ok [OF this, of al] obtain n where "renderTimeline al (JObj kvs) = Inr n" by blast
    with that show ?thesis
      unfolding renderBlock_def get by simp
  qed
  have c4: "\<exists>n. renderBlock ICONS al (JObj kvs) = Inr (Some n)" if "ty = ''method_grid''"
  proof -
    from that assms(2) ty have "items_ok (\<lambda>m. record_ok [''title'', ''description''] m \<and> icon_ok m)
              (own (JObj kvs) ''methods'')"
      unfolding b wf_block_def by (simp del: own.simps)
    from renderMethodGrid_ok [OF assms(1) this, of al] obtain n where "renderMethodGrid ICONS al (JObj kvs) = Inr n" by blast
    with that show ?thesis
      unfolding renderBlock_def get by simp
  qed
  have c5: "\<exists>n. renderBlock ICONS al (JObj kvs) = Inr (Some n)" if "ty = ''insight''"
  proof -
    from that assms(2) ty have "bilingual_field (own (JObj kvs) ''content'')"
      unfolding b wf_block_def by (simp del: own.simps)
    from renderInsight_ok [OF this, of al] obtain n where "renderInsight al (JObj kvs) = Inr n" by blast
    with that show ?thesis
      unfolding renderBlock_def get by simp
  qed
  have c6: "\<exists>n. renderBlock ICONS al (JObj kvs) = Inr (Some n)" if "ty = ''challenge_approach_outcome''"
  proof -
    from that assms(2) ty have "list_all (\<lambda>k. bilingual_field (own (JObj kvs) k))
              [''challenge'', ''approach'', ''outcome'']"
      unfolding b wf_block_def by (simp del: own.simps)
    from renderChallengeApproachOutcome_ok [OF this, of al] obtain n where "renderChallengeApproachOutcome al (JObj kvs) = Inr n" by blast
    with that show ?thesis
      unfolding renderBlock_def get by simp
  qed
  have c7: "\<exists>n. renderBlock ICONS al (JObj kvs) = Inr (Some n)" if "ty = ''visual_slots''"
  proof -
    from that assms(2) ty have "items_ok (record_ok [''caption'']) (own (JObj kvs) ''slots'')"
      unfolding b wf_block_def by (simp del: own.simps)
    from renderVisualSlots_ok [OF this, of al] obtain n where "renderVisualSlots al (JObj kvs) = Inr n" by blast
    with that show ?thesis
      unfolding renderBlock_def get by simp
  qed
  have c8: "\<exists>n. renderBlock ICONS al (JObj kvs) = Inr (Some n)" if "ty = ''key_takeaways''"
  proof -
    from that assms(2) ty have "items_ok (record_ok [''title'', ''description'']) (own (JObj kvs) ''takeaways'')"
      unfolding b wf_block_def by (simp del: own.simps)
    from renderKeyTakeaways_ok [OF this, of al] obtain n where "renderKeyTakeaways al (JObj kvs) = Inr n" by blast
    with that show ?thesis
      unfolding renderBlock_def get by simp
  qed
  from known
  have "ty = ''stat_bar'' \<or> ty = ''text'' \<or> ty = ''timeline'' \<or> ty = ''method_grid'' \<or>
        ty = ''insight'' \<or> ty = ''challenge_approach_outcome'' \<or> ty = ''visual_slots'' \<or>
        ty = ''key_takeaways''"
    by (simp add: known_block_types_def)
  then have "\<exists>n. renderBlock ICONS al (JObj kvs) = Inr (Some n)"
    by (elim disjE) (erule c1 | erule c2 | erule c3 | erule c4 | erule c5 | erule c6 | erule c7 | erule c8)+
  with b show ?thesis by simp
qed

subsection \<open>The parts of the detail page\<close>

lemma disclaimer_block_eq:
  "and_then (renderDisclaimer al) block_wrapper = Inr (disclaimer_block al)"
  by (simp add: renderDisclaimer_eq disclaimer_block_def)

lemma is_disclaimer_block_disclaimer: "is_disclaimer_block (disclaimer_block al)"
  by (simp add: disclaimer_block_def)

lemma truthy_defined: "truthy v \<Longrightarrow> v \<noteq> JNull \<and> v \<noteq> JUndefined"
  by (cases v) simp_all

lemma truthy_get_prop: "truthy v \<Longrightarrow> get_prop v k = Inr (own v k)"
  using truthy_defined get_prop_defined by blast

lemma detail_body_eq:
  assumes "truthy project"
    and "or_empty (own project ''sections'') = Inr blocks"
    and "forEach_append (section_block ICONS al) blocks (Element ''div'' ''container'' [] [])
           = Inr (Element ''div'' ''container'' [] authored)"
  shows "detail_body ICONS al project =
           Inr (Element ''div'' ''case-study-body'' []
                  [Element ''div'' ''container'' []
                     (authored @ (if truthy (own project ''confidential'')
                                  then [disclaimer_block al] else []))])"
  unfolding detail_body_def
  by (simp add: assms truthy_get_prop renderDisclaimer_eq disclaimer_block_def)

lemma buildLangToggle_ok: "\<exists>n. buildLangToggle al = Inr n"
  by (simp add: buildLangToggle_def SUPPORTED_LANGS_def lang_toggle_item_def)

lemma buildDetailTopbar_ok: "\<exists>n. buildDetailTopbar al = Inr n"
proof -
  from buildLangToggle_ok obtain toggle where "buildLangToggle al = Inr toggle" by blast
  then show ?thesis
    by (simp add: buildDetailTopbar_def set_innerHTML_def)
qed

lemma buildFooter_ok: "\<exists>n. buildFooter = Inr n"
  by (simp add: buildFooter_def set_innerHTML_def)

lemma renderDetail_found:
  assumes "get_prop data ''projects'' = Inr projects" and "or_empty projects = Inr ps"
    and "find_project slug ps = Inr project" and "truthy project"
    and "t (own project ''title'') al = Inr localized" and "to_string localized = Inr title_text"
    and "buildCaseStudyHeader al project = Inr header"
    and "detail_body ICONS al project = Inr body_el"
  shows "\<exists>topbar footer.
           buildDetailTopbar al = Inr topbar \<and> buildFooter = Inr footer \<and>
           renderDetail ICONS al True data slug =
             Inr (Some \<lparr>document_title =
                          title_text @ '' '' @ [CHR 0xE2, CHR 0x80, CHR 0x94] @ '' Mathis Thomsen'',
                        container_children =
                          [topbar,
                           Element ''main'' ''case-study-main'' [(''id'', ''main'')]
                             [header, body_el],
                           footer]\<rparr>)"
proof -
  from buildDetailTopbar_ok obtain topbar where topbar: "buildDetailTopbar al = Inr topbar"
    by blast
  from buildFooter_ok obtain footer where footer: "buildFooter = Inr footer"
    by blast
  have "renderDetail ICONS al True data slug =
             Inr (Some \<lparr>document_title =
                          title_text @ '' '' @ [CHR 0xE2, CHR 0x80, CHR 0x94] @ '' Mathis Thomsen'',
                        container_children =
                          [topbar,
                           Element ''main'' ''case-study-main'' [(''id'', ''main'')]
                             [header, body_el],
                           footer]\<rparr>)"
    unfolding renderDetail_def
    by (simp add: assms truthy_get_prop topbar footer)
  with topbar footer show ?thesis by blast
qed

lemma section_loop_known:
  assumes "\<forall>b\<in>set blocks. b \<noteq> JNull \<and> b \<noteq> JUndefined"
    and "\<forall>b\<in>set blocks. has_known_type b \<longrightarrow> renderBlock ICONS al b = Inr (Some (r b))"
  shows "forEach_append (section_block ICONS al) blocks (Element tag cls attrs ch) =
           Inr (Element tag cls attrs
                  (ch @ map (\<lambda>b. Element ''div'' ''case-study__block'' [(''data-reveal'', [])] [r b])
                          (filter has_known_type blocks)))"
proof -
  have skip: "section_block ICONS al b = Inr None" if "b \<in> set blocks" "\<not> has_known_type b" for b
    using that assms(1) by (intro section_block_None renderBlock_unknown) auto
  have keep: "section_block ICONS al b =
                Inr (Some (Element ''div'' ''case-study__block'' [(''data-reveal'', [])] [r b]))"
    if "b \<in> set (filter has_known_type blocks)" for b
    using that assms(2) by (intro section_block_Some) auto
  have "forEach_append (section_block ICONS al) blocks (Element tag cls attrs ch) =
        forEach_append (section_block ICONS al) (filter has_known_type blocks)
          (Element tag cls attrs ch)"
    using skip by (rule forEach_append_filter)
  also have "\<dots> = Inr (Element tag cls attrs
                  (ch @ map (\<lambda>b. Element ''div'' ''case-study__block'' [(''data-reveal'', [])] [r b])
                          (filter has_known_type blocks)))"
    using keep by (rule forEach_append_map)
  finally show ?thesis .
qed

lemma meta_item_ok:
  assumes "bilingual_field (own (JObj kvs) (fst field))"
    and "field \<in> set META_FIELDS"
  shows "\<exists>r. meta_item al (JObj kvs) field = Inr r"
proof -
  obtain key label where field: "field = (key, label)" by (cases field)
  from t_bilingual [OF assms(1)] field obtain s
    where s: "t (case map_of kvs key of Some v \<Rightarrow> v | None \<Rightarrow> JUndefined) al = Inr (JStr s)"
    by auto
  from assms(2) field obtain l where l: "get_prop label al = Inr l" "l = JUndefined \<or> is_string l"
    by (auto simp: META_FIELDS_def split: option.splits)
  then have "\<exists>n. el ''dt'' ''case-study-header__meta-label'' l = Inr n"
    by (auto simp: is_string_iff)
  with s l field show ?thesis
    by (auto simp: meta_item_def)
qed

lemma header_tags_ok:
  assumes "items_ok is_string (own (JObj kvs) ''tags'')"
  shows "\<exists>n. header_tags (JObj kvs) inner = Inr n"
proof (cases "truthy (own (JObj kvs) ''tags'') \<and> truthy (get_length (own (JObj kvs) ''tags''))")
  case False
  then show ?thesis by (auto simp: header_tags_def)
next
  case True
  from items_ok_list [OF assms] obtain xs
    where xs: "or_empty (own (JObj kvs) ''tags'') = Inr xs" "\<forall>x\<in>set xs. is_string x"
    by auto
  have "\<exists>ul. forEach_append
                (\<lambda>tag. and_then (el ''li'' ''case-study-header__tag'' tag) (\<lambda>li. Inr (Some li)))
                xs (Element ''ul'' ''case-study-header__tags'' [] []) = Inr ul"
    by (rule forEach_append_ok) (use xs(2) in \<open>auto simp: is_string_iff\<close>)
  then obtain ul where "forEach_append
                     (\<lambda>tag. and_then (el ''li'' ''case-study-header__tag'' tag) (\<lambda>li. Inr (Some li)))
                     xs (Element ''ul'' ''case-study-header__tags'' [] []) = Inr ul"
    by blast
  with True xs(1) show ?thesis
    by (simp add: header_tags_def)
qed

lemma header_url_ok:
  assumes "own (JObj kvs) ''url'' = JUndefined \<or> is_string (own (JObj kvs) ''url'')"
  shows "\<exists>n. header_url (JObj kvs) inner = Inr n"
  using assms by (auto simp: header_url_def is_string_iff split: option.splits)

lemma buildCaseStudyHeader_ok:
  assumes "wf_project project"
  shows "\<exists>header. buildCaseStudyHeader al project = Inr header"
proof -
  from assms obtain kvs where project: "project = JObj kvs"
    by (cases project) (simp_all add: wf_project_def)
  from assms project
  have fields: "\<And>k. k \<in> set [''title'', ''year'', ''duration'', ''client'', ''role'']
                  \<Longrightarrow> bilingual_field (own (JObj kvs) k)"
    and tags: "items_ok is_string (own (JObj kvs) ''tags'')"
    and url: "own (JObj kvs) ''url'' = JUndefined \<or> is_string (own (JObj kvs) ''url'')"
    by (auto simp: wf_project_def simp del: own.simps)
  have "\<exists>n. localized_el al ''h1'' ''case-study-header__title'' (JObj kvs) ''title'' = Inr n"
    by (rule localized_el_ok) (simp add: fields del: own.simps)
  then obtain title
    where title: "localized_el al ''h1'' ''case-study-header__title'' (JObj kvs) ''title'' = Inr title"
    by blast
  have "\<exists>r. meta_item al (JObj kvs) field = Inr r" if "field \<in> set META_FIELDS" for field
  proof (rule meta_item_ok [OF _ that])
    from that have "fst field \<in> set [''title'', ''year'', ''duration'', ''client'', ''role'']"
      by (auto simp: META_FIELDS_def)
    then show "bilingual_field (own (JObj kvs) (fst field))" by (rule fields)
  qed
  from forEach_append_ok [of META_FIELDS "meta_item al (JObj kvs)"
         "Element ''dl'' ''case-study-header__meta'' [] []", OF this]
  obtain meta where meta: "forEach_append (meta_item al (JObj kvs)) META_FIELDS
                      (Element ''dl'' ''case-study-header__meta'' [] []) = Inr meta"
    by blast
  have step: "\<exists>n. and_then (header_tags (JObj kvs) inner) (\<lambda>inner.
                    and_then (header_url (JObj kvs) inner) (\<lambda>inner. Inr (f inner))) = Inr n"
    for inner and f :: "node \<Rightarrow> node"
  proof -
    from header_tags_ok [OF tags] obtain a where a: "header_tags (JObj kvs) inner = Inr a" by blast
    from header_url_ok [OF url] obtain b where b: "header_url (JObj kvs) a = Inr b" by blast
    from a b show ?thesis by simp
  qed
  show ?thesis
    unfolding project buildCaseStudyHeader_def
    by (simp add: title meta step if_Inr cong: if_cong del: own.simps appendChild.simps)
qed

section \<open>Properties of the detail page\<close>

text \<open>
  C5: take a case study that \<^verbatim>\<open>renderDetail\<close> finds by its slug, on a page with the
  mount node, rendered for a supported language, whose title, header and section loop ran
  through. Then \<^verbatim>\<open>renderDetail\<close>
  returns a page. The rendered authored blocks number at most the sections and none of
  them is a disclaimer block. If \<^verbatim>\<open>confidential\<close> is \<^verbatim>\<open>true\<close>, the body holds the
  authored blocks followed by the disclaimer block: exactly one disclaimer block, in the
  last place, however many authored blocks there are. If \<^verbatim>\<open>confidential\<close> is
  \<^verbatim>\<open>false\<close> or absent, the body holds the authored blocks only.
\<close>

theorem renderDetail_disclaimer:
  assumes "get_prop data ''projects'' = Inr projects" and "or_empty projects = Inr ps"
    and "find_project slug ps = Inr project" and "truthy project"
    and "t (own project ''title'') al = Inr localized" and "to_string localized = Inr title_text"
    and "buildCaseStudyHeader al project = Inr header"
    and "or_empty (own project ''sections'') = Inr blocks"
    and "forEach_append (section_block ICONS al) blocks (Element ''div'' ''container'' [] [])
           = Inr inner"
    and "al \<in> set SUPPORTED_LANGS"
  shows "and_then (renderDisclaimer al) block_wrapper = Inr (disclaimer_block al) \<and>
         is_disclaimer_block (disclaimer_block al) \<and>
         (\<exists>authored page topbar footer.
            inner = Element ''div'' ''container'' [] authored \<and>
            length authored \<le> length blocks \<and>
            list_all (\<lambda>w. \<not> is_disclaimer_block w) authored \<and>
            filter is_disclaimer_block (authored @ [disclaimer_block al]) = [disclaimer_block al] \<and>
            renderDetail ICONS al True data slug = Inr (Some page) \<and>
            (own project ''confidential'' = JBool True \<longrightarrow>
               container_children page =
                 [topbar,
                  Element ''main'' ''case-study-main'' [(''id'', ''main'')]
                    [header,
                     Element ''div'' ''case-study-body'' []
                       [Element ''div'' ''container'' [] (authored @ [disclaimer_block al])]],
                  footer]) \<and>
            (own project ''confidential'' = JBool False \<or>
             own project ''confidential'' = JUndefined \<longrightarrow>
               container_children page =
                 [topbar,
                  Element ''main'' ''case-study-main'' [(''id'', ''main'')]
                    [header,
                     Element ''div'' ''case-study-body'' []
                       [Element ''div'' ''container'' [] authored]],
                  footer]))"
proof -
  from section_loop_authored [OF assms(9)] obtain authored
    where inner: "inner = Element ''div'' ''container'' [] authored"
      and len: "length authored \<le> length blocks"
      and none: "list_all (\<lambda>w. \<not> is_disclaimer_block w) authored"
    by auto
  from none have "filter is_disclaimer_block authored = []"
    by (simp add: list_all_iff filter_empty_conv)
  then have one: "filter is_disclaimer_block (authored @ [disclaimer_block al])
                    = [disclaimer_block al]"
    by (simp add: is_disclaimer_block_disclaimer)
  let ?body = "Element ''div'' ''case-study-body'' []
                 [Element ''div'' ''container'' []
                    (authored @ (if truthy (own project ''confidential'')
                                 then [disclaimer_block al] else []))]"
  have body: "detail_body ICONS al project = Inr ?body"
    using assms(4,8) assms(9) [unfolded inner] by (rule detail_body_eq)
  from renderDetail_found [OF assms(1-7) body] obtain topbar footer
    where page: "renderDetail ICONS al True data slug =
             Inr (Some \<lparr>document_title =
                          title_text @ '' '' @ [CHR 0xE2, CHR 0x80, CHR 0x94] @ '' Mathis Thomsen'',
                        container_children =
                          [topbar,
                           Element ''main'' ''case-study-main'' [(''id'', ''main'')]
                             [header, ?body],
                           footer]\<rparr>)"
    by blast
  let ?page = "\<lparr>document_title =
                  title_text @ '' '' @ [CHR 0xE2, CHR 0x80, CHR 0x94] @ '' Mathis Thomsen'',
                container_children =
                  [topbar,
                   Element ''main'' ''case-study-main'' [(''id'', ''main'')] [header, ?body],
                   footer]\<rparr>"
  have "inner = Element ''div'' ''container'' [] authored \<and>
            length authored \<le> length blocks \<and>
            list_all (\<lambda>w. \<not> is_disclaimer_block w) authored \<and>
            filter is_disclaimer_block (authored @ [disclaimer_block al]) = [disclaimer_block al] \<and>
            renderDetail ICONS al True data slug = Inr (Some ?page) \<and>
            (own project ''confidential'' = JBool True \<longrightarrow>
               container_children ?page =
                 [topbar,
                  Element ''main'' ''case-study-main'' [(''id'', ''main'')]
                    [header,
                     Element ''div'' ''case-study-body'' []
                       [Element ''div'' ''container'' [] (authored @ [disclaimer_block al])]],
                  footer]) \<and>
            (own project ''confidential'' = JBool False \<or>
             own project ''confidential'' = JUndefined \<longrightarrow>
               container_children ?page =
                 [topbar,
                  Element ''main'' ''case-study-main'' [(''id'', ''main'')]
                    [header,
                     Element ''div'' ''case-study-body'' []
                       [Element ''div'' ''container'' [] authored]],
                  footer])"
    using inner len none one page by auto
  then show ?thesis
    using disclaimer_block_eq is_disclaimer_block_disclaimer by blast
qed

text \<open>
  C5 on a confidential case study with one text block, on a confidential one with no
  sections, and on one with no sections and no \<^verbatim>\<open>confidential\<close> flag: the
  \<^verbatim>\<open>main\<close> element of the rendered page.
\<close>

theorem renderDetail_disclaimer_witness:
  "(\<exists>page.
      renderDetail (\<lambda>k. JUndefined) ''en'' True
        (JObj [(''projects'',
                JArr [JObj [(''slug'', JStr ''a''), (''title'', JStr ''Case''),
                            (''confidential'', JBool True),
                            (''sections'',
                             JArr [JObj [(''type'', JStr ''text''),
                                         (''content'', JStr ''hello'')]])]])])
        (JStr ''a'') = Inr (Some page) \<and>
      container_children page ! 1 =
        Element ''main'' ''case-study-main'' [(''id'', ''main'')]
          [Element ''header'' ''case-study-header'' []
             [Element ''div'' ''case-study-header__inner container'' []
                [Element ''p'' ''case-study-header__label'' [] [Markup ''Portfolio''],
                 Element ''h1'' ''case-study-header__title'' [] [Markup ''Case''],
                 Element ''dl'' ''case-study-header__meta'' [] []]],
           Element ''div'' ''case-study-body'' []
             [Element ''div'' ''container'' []
                [Element ''div'' ''case-study__block'' [(''data-reveal'', [])]
                   [Element ''p'' ''cs-text'' [] [Markup ''hello'']],
                 disclaimer_block ''en'']]]) \<and>
   (\<exists>page.
      renderDetail (\<lambda>k. JUndefined) ''de'' True
        (JObj [(''projects'', JArr [JObj [(''slug'', JStr ''b''), (''confidential'', JBool True)]])])
        (JStr ''b'') = Inr (Some page) \<and>
      container_children page ! 1 =
        Element ''main'' ''case-study-main'' [(''id'', ''main'')]
          [Element ''header'' ''case-study-header'' []
             [Element ''div'' ''case-study-header__inner container'' []
                [Element ''p'' ''case-study-header__label'' [] [Markup ''Portfolio''],
                 Element ''h1'' ''case-study-header__title'' [] [],
                 Element ''dl'' ''case-study-header__meta'' [] []]],
           Element ''div'' ''case-study-body'' []
             [Element ''div'' ''container'' [] [disclaimer_block ''de'']]]) \<and>
   (\<exists>page.
      renderDetail (\<lambda>k. JUndefined) ''de'' True
        (JObj [(''projects'', JArr [JObj [(''slug'', JStr ''b'')]])])
        (JStr ''b'') = Inr (Some page) \<and>
      container_children page ! 1 =
        Element ''main'' ''case-study-main'' [(''id'', ''main'')]
          [Element ''header'' ''case-study-header'' []
             [Element ''div'' ''case-study-header__inner container'' []
                [Element ''p'' ''case-study-header__label'' [] [Markup ''Portfolio''],
                 Element ''h1'' ''case-study-header__title'' [] [],
                 Element ''dl'' ''case-study-header__meta'' [] []]],
           Element ''div'' ''case-study-body'' []
             [Element ''div'' ''container'' [] []]])"
proof -
  let ?block = "JObj [(''type'', JStr ''text''), (''content'', JStr ''hello'')]"
  let ?a = "JObj [(''slug'', JStr ''a''), (''title'', JStr ''Case''),
                  (''confidential'', JBool True), (''sections'', JArr [?block])]"
  let ?b = "JObj [(''slug'', JStr ''b''), (''confidential'', JBool True)]"
  let ?c = "JObj [(''slug'', JStr ''b'')]"
  let ?header = "\<lambda>title. Element ''header'' ''case-study-header'' []
             [Element ''div'' ''case-study-header__inner container'' []
                [Element ''p'' ''case-study-header__label'' [] [Markup ''Portfolio''],
                 Element ''h1'' ''case-study-header__title'' [] title,
                 Element ''dl'' ''case-study-header__meta'' [] []]]"
  have find_a: "find_project (JStr ''a'') [?a] = Inr ?a"
    and find_b: "find_project (JStr ''b'') [?b] = Inr ?b"
    and find_c: "find_project (JStr ''b'') [?c] = Inr ?c"
    by (simp_all add: strict_eq_def)
  have title_a: "t (own ?a ''title'') ''en'' = Inr (JStr ''Case'')"
    and title_b: "t (own ?b ''title'') ''de'' = Inr (JStr [])"
    and title_c: "t (own ?c ''title'') ''de'' = Inr (JStr [])"
    by (simp_all add: t_def)
  have header_a: "buildCaseStudyHeader ''en'' ?a = Inr (?header [Markup ''Case''])"
    and header_b: "buildCaseStudyHeader ''de'' ?b = Inr (?header [])"
    and header_c: "buildCaseStudyHeader ''de'' ?c = Inr (?header [])"
    by code_simp+
  have loop_a: "forEach_append (section_block (\<lambda>k. JUndefined) ''en'') [?block]
                  (Element ''div'' ''container'' [] []) =
                Inr (Element ''div'' ''container'' []
                       [Element ''div'' ''case-study__block'' [(''data-reveal'', [])]
                          [Element ''p'' ''cs-text'' [] [Markup ''hello'']]])"
    by (simp add: section_block_def renderBlock_def renderText_def localized_el_def t_def
          markup_def)
  have loop_e: "forEach_append (section_block (\<lambda>k. JUndefined) ''de'') []
                  (Element ''div'' ''container'' [] []) = Inr (Element ''div'' ''container'' [] [])"
    by simp
  have a: "\<exists>page.
      renderDetail (\<lambda>k. JUndefined) ''en'' True (JObj [(''projects'', JArr [?a])]) (JStr ''a'')
        = Inr (Some page) \<and>
      container_children page ! 1 =
        Element ''main'' ''case-study-main'' [(''id'', ''main'')]
          [?header [Markup ''Case''],
           Element ''div'' ''case-study-body'' []
             [Element ''div'' ''container'' []
                [Element ''div'' ''case-study__block'' [(''data-reveal'', [])]
                   [Element ''p'' ''cs-text'' [] [Markup ''hello'']],
                 disclaimer_block ''en'']]]"
    using renderDetail_disclaimer
            [of "JObj [(''projects'', JArr [?a])]" "JArr [?a]" "[?a]" "JStr ''a''" ?a "''en''"
                "JStr ''Case''" "''Case''" "?header [Markup ''Case'']" "[?block]"
                "\<lambda>k. JUndefined", OF _ _ find_a _ title_a _ header_a _ loop_a]
    by (auto simp: SUPPORTED_LANGS_def)
  have b: "\<exists>page.
      renderDetail (\<lambda>k. JUndefined) ''de'' True (JObj [(''projects'', JArr [?b])]) (JStr ''b'')
        = Inr (Some page) \<and>
      container_children page ! 1 =
        Element ''main'' ''case-study-main'' [(''id'', ''main'')]
          [?header [],
           Element ''div'' ''case-study-body'' []
             [Element ''div'' ''container'' [] [disclaimer_block ''de'']]]"
    using renderDetail_disclaimer
            [of "JObj [(''projects'', JArr [?b])]" "JArr [?b]" "[?b]" "JStr ''b''" ?b "''de''"
                "JStr []" "[]" "?header []" "[]"
                "\<lambda>k. JUndefined", OF _ _ find_b _ title_b _ header_b _ loop_e]
    by (auto simp: or_empty_def SUPPORTED_LANGS_def)
  have c: "\<exists>page.
      renderDetail (\<lambda>k. JUndefined) ''de'' True (JObj [(''projects'', JArr [?c])]) (JStr ''b'')
        = Inr (Some page) \<and>
      container_children page ! 1 =
        Element ''main'' ''case-study-main'' [(''id'', ''main'')]
          [?header [],
           Element ''div'' ''case-study-body'' []
             [Element ''div'' ''container'' [] []]]"
    using renderDetail_disclaimer
            [of "JObj [(''projects'', JArr [?c])]" "JArr [?c]" "[?c]" "JStr ''b''" ?c "''de''"
                "JStr []" "[]" "?header []" "[]"
                "\<lambda>k. JUndefined", OF _ _ find_c _ title_c _ header_c _ loop_e]
    by (auto simp: or_empty_def SUPPORTED_LANGS_def)
  from a b c show ?thesis by simp
qed

text \<open>
  C6: take a case study that \<^verbatim>\<open>renderDetail\<close> finds by its slug, on a page with the
  mount node, rendered for a supported language, whose \<^verbatim>\<open>sections\<close> is an array of
  blocks (no entry is \<^verbatim>\<open>null\<close>). For every block whose type is not one of the eight
  known types \<^verbatim>\<open>renderBlock\<close> returns \<^verbatim>\<open>null\<close> without throwing, whatever
  else the block holds. If the record and its blocks of known type are well formed (with
  an icon table of strings), then every block \<open>b\<close> of a known type is rendered:
  \<^verbatim>\<open>renderBlock\<close> returns a node \<open>r b\<close>, the one that the renderer of the type
  of \<open>b\<close> builds; \<^verbatim>\<open>renderDetail\<close> does not throw and returns the page; and the
  body of the page holds the wrapped nodes \<open>r b\<close> of exactly the blocks of known type,
  in the order of the section list, and nothing for the blocks of unknown type (the
  disclaimer block follows for a confidential project).
\<close>

theorem renderDetail_skips_unknown_blocks:
  assumes "get_prop data ''projects'' = Inr projects" and "or_empty projects = Inr ps"
    and "find_project slug ps = Inr project" and "truthy project"
    and "own project ''sections'' = JArr blocks"
    and "\<forall>b\<in>set blocks. b \<noteq> JNull \<and> b \<noteq> JUndefined"
    and "al \<in> set SUPPORTED_LANGS"
  shows "(\<forall>b\<in>set blocks. \<not> has_known_type b \<longrightarrow> renderBlock ICONS al b = Inr None) \<and>
         (icon_table ICONS \<and> wf_project project \<and>
          (\<forall>b\<in>set blocks. has_known_type b \<longrightarrow> wf_block b) \<longrightarrow>
            (\<exists>r page topbar header footer.
               (\<forall>b\<in>set blocks. has_known_type b \<longrightarrow>
                  renderBlock ICONS al b = Inr (Some (r b)) \<and> rendered_by ICONS al b (r b)) \<and>
               buildDetailTopbar al = Inr topbar \<and>
               buildCaseStudyHeader al project = Inr header \<and>
               buildFooter = Inr footer \<and>
               renderDetail ICONS al True data slug = Inr (Some page) \<and>
               container_children page =
                 [topbar,
                  Element ''main'' ''case-study-main'' [(''id'', ''main'')]
                    [header,
                     Element ''div'' ''case-study-body'' []
                       [Element ''div'' ''container'' []
                          (map (\<lambda>b. Element ''div'' ''case-study__block''
                                       [(''data-reveal'', [])] [r b])
                             (filter has_known_type blocks) @
                           (if truthy (own project ''confidential'')
                            then [disclaimer_block al] else []))]],
                  footer]))"
proof (intro conjI impI)
  show "\<forall>b\<in>set blocks. \<not> has_known_type b \<longrightarrow> renderBlock ICONS al b = Inr None"
    using assms(6) renderBlock_unknown by blast
next
  assume wf: "icon_table ICONS \<and> wf_project project \<and>
              (\<forall>b\<in>set blocks. has_known_type b \<longrightarrow> wf_block b)"
  from assms(5) have blocks: "or_empty (own project ''sections'') = Inr blocks"
    by simp
  from wf obtain kvs where project: "project = JObj kvs"
    by (cases project) (simp_all add: wf_project_def)
  from wf project have "bilingual_field (own project ''title'')"
    by (simp add: wf_project_def del: own.simps)
  from t_bilingual [OF this] obtain s where title: "t (own project ''title'') al = Inr (JStr s)"
    by blast
  have title_text: "to_string (JStr s) = Inr s"
    by simp
  from wf buildCaseStudyHeader_ok obtain h
    where header: "buildCaseStudyHeader al project = Inr h"
    by blast
  from wf
  have "\<forall>b\<in>set blocks. \<exists>n. has_known_type b \<longrightarrow> renderBlock ICONS al b = Inr (Some n)"
    using renderBlock_ok by blast
  then obtain g
    where known: "\<forall>b\<in>set blocks. has_known_type b \<longrightarrow> renderBlock ICONS al b = Inr (Some (g b))"
    using bchoice [of "set blocks"
        "\<lambda>b n. has_known_type b \<longrightarrow> renderBlock ICONS al b = Inr (Some n)"]
    by blast
  then have by_type: "\<forall>b\<in>set blocks. has_known_type b \<longrightarrow>
                  renderBlock ICONS al b = Inr (Some (g b)) \<and> rendered_by ICONS al b (g b)"
    using renderBlock_rendered_by by blast
  from section_loop_known [OF assms(6) known, of "''div''" "''container''" "[]" "[]"]
  have "forEach_append (section_block ICONS al) blocks (Element ''div'' ''container'' [] []) =
          Inr (Element ''div'' ''container'' []
                 (map (\<lambda>b. Element ''div'' ''case-study__block'' [(''data-reveal'', [])] [g b])
                    (filter has_known_type blocks)))"
    by simp
  from detail_body_eq [OF assms(4) blocks this]
  have body: "detail_body ICONS al project =
          Inr (Element ''div'' ''case-study-body'' []
                 [Element ''div'' ''container'' []
                    (map (\<lambda>b. Element ''div'' ''case-study__block'' [(''data-reveal'', [])] [g b])
                       (filter has_known_type blocks) @
                     (if truthy (own project ''confidential'')
                      then [disclaimer_block al] else []))])" .
  from renderDetail_found [OF assms(1-4) title title_text header body]
  obtain topbar footer where parts: "buildDetailTopbar al = Inr topbar" "buildFooter = Inr footer"
    and page: "renderDetail ICONS al True data slug =
             Inr (Some \<lparr>document_title =
                          s @ '' '' @ [CHR 0xE2, CHR 0x80, CHR 0x94] @ '' Mathis Thomsen'',
                        container_children =
                          [topbar,
                           Element ''main'' ''case-study-main'' [(''id'', ''main'')]
                             [h,
                              Element ''div'' ''case-study-body'' []
                                [Element ''div'' ''container'' []
                                   (map (\<lambda>b. Element ''div'' ''case-study__block''
                                                [(''data-reveal'', [])] [g b])
                                      (filter has_known_type blocks) @
                                    (if truthy (own project ''confidential'')
                                     then [disclaimer_block al] else []))]],
                           footer]\<rparr>)"
    by blast
  let ?page = "\<lparr>document_title =
                          s @ '' '' @ [CHR 0xE2, CHR 0x80, CHR 0x94] @ '' Mathis Thomsen'',
                        container_children =
                          [topbar,
                           Element ''main'' ''case-study-main'' [(''id'', ''main'')]
                             [h,
                              Element ''div'' ''case-study-body'' []
                                [Element ''div'' ''container'' []
                                   (map (\<lambda>b. Element ''div'' ''case-study__block''
                                                [(''data-reveal'', [])] [g b])
                                      (filter has_known_type blocks) @
                                    (if truthy (own project ''confidential'')
                                     then [disclaimer_block al] else []))]],
                           footer]\<rparr>"
  have "(\<forall>b\<in>set blocks. has_known_type b \<longrightarrow>
                  renderBlock ICONS al b = Inr (Some (g b)) \<and> rendered_by ICONS al b (g b)) \<and>
               buildDetailTopbar al = Inr topbar \<and>
               buildCaseStudyHeader al project = Inr h \<and>
               buildFooter = Inr footer \<and>
               renderDetail ICONS al True data slug = Inr (Some ?page) \<and>
               container_children ?page =
                 [topbar,
                  Element ''main'' ''case-study-main'' [(''id'', ''main'')]
                    [h,
                     Element ''div'' ''case-study-body'' []
                       [Element ''div'' ''container'' []
                          (map (\<lambda>b. Element ''div'' ''case-study__block''
                                       [(''data-reveal'', [])] [g b])
                             (filter has_known_type blocks) @
                           (if truthy (own project ''confidential'')
                            then [disclaimer_block al] else []))]],
                  footer]"
    using by_type parts header page by simp
  then show "\<exists>r page topbar header footer.
               (\<forall>b\<in>set blocks. has_known_type b \<longrightarrow>
                  renderBlock ICONS al b = Inr (Some (r b)) \<and> rendered_by ICONS al b (r b)) \<and>
               buildDetailTopbar al = Inr topbar \<and>
               buildCaseStudyHeader al project = Inr header \<and>
               buildFooter = Inr footer \<and>
               renderDetail ICONS al True data slug = Inr (Some page) \<and>
               container_children page =
                 [topbar,
                  Element ''main'' ''case-study-main'' [(''id'', ''main'')]
                    [header,
                     Element ''div'' ''case-study-body'' []
                       [Element ''div'' ''container'' []
                          (map (\<lambda>b. Element ''div'' ''case-study__block''
                                       [(''data-reveal'', [])] [r b])
                             (filter has_known_type blocks) @
                           (if truthy (own project ''confidential'')
                            then [disclaimer_block al] else []))]],
                  footer]"
    by blast
qed

text \<open>
  C6 on a section list with a text block, a block of the unknown type \<^verbatim>\<open>video\<close>
  and an insight block: the text and the insight are rendered, in this order, and the
  video block leaves nothing.
\<close>

theorem renderDetail_skips_unknown_blocks_witness:
  "\<not> has_known_type (JObj [(''type'', JStr ''video''), (''src'', JStr ''demo.mp4'')]) \<and>
   renderBlock (\<lambda>k. JUndefined) ''en''
     (JObj [(''type'', JStr ''video''), (''src'', JStr ''demo.mp4'')]) = Inr None \<and>
   (\<exists>page.
      renderDetail (\<lambda>k. JUndefined) ''en'' True
        (JObj [(''projects'',
                JArr [JObj [(''slug'', JStr ''a''),
                            (''sections'',
                             JArr [JObj [(''type'', JStr ''text''), (''content'', JStr ''hello'')],
                                   JObj [(''type'', JStr ''video''), (''src'', JStr ''demo.mp4'')],
                                   JObj [(''type'', JStr ''insight''),
                                         (''content'', JObj [(''de'', JStr ''Einsicht'')])]])]])])
        (JStr ''a'') = Inr (Some page) \<and>
      container_children page ! 1 =
        Element ''main'' ''case-study-main'' [(''id'', ''main'')]
          [Element ''header'' ''case-study-header'' []
             [Element ''div'' ''case-study-header__inner container'' []
                [Element ''p'' ''case-study-header__label'' [] [Markup ''Portfolio''],
                 Element ''h1'' ''case-study-header__title'' [] [],
                 Element ''dl'' ''case-study-header__meta'' [] []]],
           Element ''div'' ''case-study-body'' []
             [Element ''div'' ''container'' []
                [Element ''div'' ''case-study__block'' [(''data-reveal'', [])]
                   [Element ''p'' ''cs-text'' [] [Markup ''hello'']],
                 Element ''div'' ''case-study__block'' [(''data-reveal'', [])]
                   [Element ''aside'' ''cs-insight'' []
                      [Element ''p'' ''cs-insight__text'' [] [Markup ''Einsicht'']]]]]])"
proof -
  let ?text = "JObj [(''type'', JStr ''text''), (''content'', JStr ''hello'')]"
  let ?video = "JObj [(''type'', JStr ''video''), (''src'', JStr ''demo.mp4'')]"
  let ?insight = "JObj [(''type'', JStr ''insight''), (''content'', JObj [(''de'', JStr ''Einsicht'')])]"
  let ?blocks = "[?text, ?video, ?insight]"
  let ?a = "JObj [(''slug'', JStr ''a''), (''sections'', JArr ?blocks)]"
  let ?header = "Element ''header'' ''case-study-header'' []
             [Element ''div'' ''case-study-header__inner container'' []
                [Element ''p'' ''case-study-header__label'' [] [Markup ''Portfolio''],
                 Element ''h1'' ''case-study-header__title'' [] [],
                 Element ''dl'' ''case-study-header__meta'' [] []]]"
  have find_a: "find_project (JStr ''a'') [?a] = Inr ?a"
    by (simp add: strict_eq_def)
  have supported: "''en'' \<in> set SUPPORTED_LANGS"
    by (simp add: SUPPORTED_LANGS_def)
  have known: "has_known_type ?text" "\<not> has_known_type ?video" "has_known_type ?insight"
    by (simp_all add: has_known_type_def known_block_types_def)
  have icons: "icon_table (\<lambda>k. JUndefined)"
    by (simp add: icon_table_def)
  have wf_a: "wf_project ?a"
    by (simp add: wf_project_def)
  have wf_blocks: "\<forall>b\<in>set ?blocks. has_known_type b \<longrightarrow> wf_block b"
    using known by (simp add: wf_block_def)
  have header_a: "buildCaseStudyHeader ''en'' ?a = Inr ?header"
    by code_simp
  have r_text: "renderBlock (\<lambda>k. JUndefined) ''en'' ?text =
                  Inr (Some (Element ''p'' ''cs-text'' [] [Markup ''hello'']))"
    by (simp add: renderBlock_def renderText_def localized_el_def t_def markup_def)
  have r_insight: "renderBlock (\<lambda>k. JUndefined) ''en'' ?insight =
                     Inr (Some (Element ''aside'' ''cs-insight'' []
                                  [Element ''p'' ''cs-insight__text'' [] [Markup ''Einsicht'']]))"
    by (simp add: renderBlock_def renderInsight_def localized_el_def t_def markup_def)
  have get: "get_prop (JObj [(''projects'', JArr [?a])]) ''projects'' = Inr (JArr [?a])"
    and arr: "or_empty (JArr [?a]) = Inr [?a]"
    and found: "truthy ?a"
    and sections: "own ?a ''sections'' = JArr ?blocks"
    and blocks: "\<forall>b\<in>set ?blocks. b \<noteq> JNull \<and> b \<noteq> JUndefined"
    by simp_all
  note inst = renderDetail_skips_unknown_blocks
                [of _ _ _ _ _ _ _ "\<lambda>k. JUndefined",
                 OF get arr find_a found sections blocks supported]
  from inst known(2) have skipped: "renderBlock (\<lambda>k. JUndefined) ''en'' ?video = Inr None"
    by simp
  from inst [THEN conjunct2, THEN mp, OF conjI [OF icons conjI [OF wf_a wf_blocks]]]
  obtain r page topbar header footer
    where r: "\<forall>b\<in>set ?blocks. has_known_type b \<longrightarrow>
                renderBlock (\<lambda>k. JUndefined) ''en'' b = Inr (Some (r b)) \<and>
                rendered_by (\<lambda>k. JUndefined) ''en'' b (r b)"
      and h: "buildCaseStudyHeader ''en'' ?a = Inr header"
      and page: "renderDetail (\<lambda>k. JUndefined) ''en'' True (JObj [(''projects'', JArr [?a])])
                   (JStr ''a'') = Inr (Some page)"
      and children: "container_children page =
                 [topbar,
                  Element ''main'' ''case-study-main'' [(''id'', ''main'')]
                    [header,
                     Element ''div'' ''case-study-body'' []
                       [Element ''div'' ''container'' []
                          (map (\<lambda>b. Element ''div'' ''case-study__block''
                                       [(''data-reveal'', [])] [r b])
                             (filter has_known_type ?blocks) @
                           (if truthy (own ?a ''confidential'')
                            then [disclaimer_block ''en''] else []))]],
                  footer]"
    by blast
  from r known r_text r_insight
  have "r ?text = Element ''p'' ''cs-text'' [] [Markup ''hello'']"
    and "r ?insight = Element ''aside'' ''cs-insight'' []
                        [Element ''p'' ''cs-insight__text'' [] [Markup ''Einsicht'']]"
    by simp_all
  moreover from h header_a have "header = ?header"
    by simp
  ultimately have "container_children page ! 1 =
        Element ''main'' ''case-study-main'' [(''id'', ''main'')]
          [?header,
           Element ''div'' ''case-study-body'' []
             [Element ''div'' ''container'' []
                [Element ''div'' ''case-study__block'' [(''data-reveal'', [])]
                   [Element ''p'' ''cs-text'' [] [Markup ''hello'']],
                 Element ''div'' ''case-study__block'' [(''data-reveal'', [])]
                   [Element ''aside'' ''cs-insight'' []
                      [Element ''p'' ''cs-insight__text'' [] [Markup ''Einsicht'']]]]]]"
    using children known by simp
  with page known(2) skipped show ?thesis by blast
qed

section \<open>Properties of the timeline block\<close>

text \<open>
  C10: in a timeline block whose \<^verbatim>\<open>phases\<close> is an array, rendered for a supported
  language, the entry of every phase starts with its label: the localized
  \<^verbatim>\<open>phase\<close> field as a string, with the prefix \<^verbatim>\<open>Phase \<close> when it consists of
  decimal digits only (one or more) and verbatim otherwise; a phase whose \<^verbatim>\<open>wip\<close> is
  \<^verbatim>\<open>true\<close> has, next, the badge \<^verbatim>\<open>In Arbeit\<close> (\<^verbatim>\<open>de\<close>) or
  \<^verbatim>\<open>In Progress\<close> (\<^verbatim>\<open>en\<close>), and any other phase has no badge; the title and the
  description follow. The rendering exists whenever the phases are objects whose
  \<^verbatim>\<open>phase\<close>, \<^verbatim>\<open>title\<close> and \<^verbatim>\<open>description\<close> are bilingual fields.
\<close>

theorem renderTimeline_phase_labels:
  assumes "al \<in> set SUPPORTED_LANGS"
    and "get_prop block ''phases'' = Inr (JArr phases)"
    and "i < length phases"
  shows "(list_all (record_ok [''phase'', ''title'', ''description'']) phases \<longrightarrow>
            (\<exists>n. renderTimeline al block = Inr n)) \<and>
         (renderTimeline al block = Inr n \<longrightarrow>
            (\<exists>entries wip ph rawLabel s title desc.
               n = Element ''div'' [] []
                     [Element ''p'' ''cs-section-label'' []
                        [Text (if al = ''de'' then ''Prozess'' else ''Process'')],
                      Element ''div'' ''cs-timeline'' [] entries] \<and>
               length entries = length phases \<and>
               get_prop (phases ! i) ''wip'' = Inr wip \<and>
               get_prop (phases ! i) ''phase'' = Inr ph \<and>
               t ph al = Inr rawLabel \<and> to_string rawLabel = Inr s \<and>
               entries ! i =
                 Element ''div''
                   (if wip = JBool True
                    then ''cs-timeline__phase-entry cs-timeline__phase-entry--wip''
                    else ''cs-timeline__phase-entry'') []
                   ([Element ''p'' ''cs-timeline__phase-num'' []
                       (text_nodes (if digits_only s then ''Phase '' @ s else s))] @
                    (if wip = JBool True
                     then [Element ''span'' ''cs-timeline__phase-wip-badge'' []
                             [Markup (if al = ''de'' then ''In Arbeit'' else ''In Progress'')]]
                     else []) @
                    [title, desc])))"
proof (intro conjI impI)
  assume wf: "list_all (record_ok [''phase'', ''title'', ''description'']) phases"
  from assms(2) obtain kvs where block: "block = JObj kvs"
    and phases: "own (JObj kvs) ''phases'' = JArr phases"
    by (cases block) auto
  from wf phases
  have "items_ok (record_ok [''phase'', ''title'', ''description'']) (own (JObj kvs) ''phases'')"
    by simp
  from renderTimeline_ok [OF this] block show "\<exists>n. renderTimeline al block = Inr n"
    by simp
next
  assume render: "renderTimeline al block = Inr n"
  with assms(2) obtain timeline
    where loop: "forEach_append
                   (\<lambda>phase. and_then (timeline_phase al phase) (\<lambda>entry. Inr (Some entry)))
                   phases (Element ''div'' ''cs-timeline'' [] []) = Inr timeline"
      and n: "n = Element ''div'' [] []
                    [Element ''p'' ''cs-section-label'' []
                       (text_nodes (if al = ''de'' then ''Prozess'' else ''Process'')), timeline]"
    by (auto simp: renderTimeline_def and_then_eq_Inr)
  from forEach_append_built [OF loop] obtain entries
    where timeline: "timeline = Element ''div'' ''cs-timeline'' [] entries"
      and built: "map (timeline_phase al) phases = map Inr entries"
    by auto
  from built have len: "length entries = length phases"
    by (metis length_map)
  from built assms(3) len have "timeline_phase al (phases ! i) = Inr (entries ! i)"
    by (metis nth_map)
  from timeline_phase_entry [OF this] n timeline len
  show "\<exists>entries wip ph rawLabel s title desc.
               n = Element ''div'' [] []
                     [Element ''p'' ''cs-section-label'' []
                        [Text (if al = ''de'' then ''Prozess'' else ''Process'')],
                      Element ''div'' ''cs-timeline'' [] entries] \<and>
               length entries = length phases \<and>
               get_prop (phases ! i) ''wip'' = Inr wip \<and>
               get_prop (phases ! i) ''phase'' = Inr ph \<and>
               t ph al = Inr rawLabel \<and> to_string rawLabel = Inr s \<and>
               entries ! i =
                 Element ''div''
                   (if wip = JBool True
                    then ''cs-timeline__phase-entry cs-timeline__phase-entry--wip''
                    else ''cs-timeline__phase-entry'') []
                   ([Element ''p'' ''cs-timeline__phase-num'' []
                       (text_nodes (if digits_only s then ''Phase '' @ s else s))] @
                    (if wip = JBool True
                     then [Element ''span'' ''cs-timeline__phase-wip-badge'' []
                             [Markup (if al = ''de'' then ''In Arbeit'' else ''In Progress'')]]
                     else []) @
                    [title, desc])"
    by (auto simp: text_nodes_def)
qed

text \<open>
  C10 on a timeline of two phases, for \<^verbatim>\<open>en\<close>: the phase \<^verbatim>\<open>1\<close> in progress
  is labelled \<^verbatim>\<open>Phase 1\<close> and carries the badge, the phase \<^verbatim>\<open>Discovery\<close> keeps
  its label and has none.
\<close>

theorem renderTimeline_phase_labels_witness:
  "''en'' \<in> set SUPPORTED_LANGS \<and>
   get_prop
     (JObj [(''type'', JStr ''timeline''),
            (''phases'',
             JArr [JObj [(''phase'', JStr ''1''), (''wip'', JBool True),
                         (''title'', JObj [(''de'', JStr ''Start'')])],
                   JObj [(''phase'', JObj [(''en'', JStr ''Discovery'')])]])])
     ''phases'' =
     Inr (JArr [JObj [(''phase'', JStr ''1''), (''wip'', JBool True),
                      (''title'', JObj [(''de'', JStr ''Start'')])],
                JObj [(''phase'', JObj [(''en'', JStr ''Discovery'')])]]) \<and>
   list_all (record_ok [''phase'', ''title'', ''description''])
     [JObj [(''phase'', JStr ''1''), (''wip'', JBool True),
            (''title'', JObj [(''de'', JStr ''Start'')])],
      JObj [(''phase'', JObj [(''en'', JStr ''Discovery'')])]] \<and>
   renderTimeline ''en''
     (JObj [(''type'', JStr ''timeline''),
            (''phases'',
             JArr [JObj [(''phase'', JStr ''1''), (''wip'', JBool True),
                         (''title'', JObj [(''de'', JStr ''Start'')])],
                   JObj [(''phase'', JObj [(''en'', JStr ''Discovery'')])]])]) =
     Inr (Element ''div'' [] []
            [Element ''p'' ''cs-section-label'' [] [Text ''Process''],
             Element ''div'' ''cs-timeline'' []
               [Element ''div'' ''cs-timeline__phase-entry cs-timeline__phase-entry--wip'' []
                  [Element ''p'' ''cs-timeline__phase-num'' [] [Text ''Phase 1''],
                   Element ''span'' ''cs-timeline__phase-wip-badge'' [] [Markup ''In Progress''],
                   Element ''h3'' ''cs-timeline__phase-title'' [] [Markup ''Start''],
                   Element ''p'' ''cs-timeline__phase-desc'' [] []],
                Element ''div'' ''cs-timeline__phase-entry'' []
                  [Element ''p'' ''cs-timeline__phase-num'' [] [Text ''Discovery''],
                   Element ''h3'' ''cs-timeline__phase-title'' [] [],
                   Element ''p'' ''cs-timeline__phase-desc'' [] []]]])"
proof -
  let ?phases = "[JObj [(''phase'', JStr ''1''), (''wip'', JBool True),
                        (''title'', JObj [(''de'', JStr ''Start'')])],
                  JObj [(''phase'', JObj [(''en'', JStr ''Discovery'')])]]"
  let ?block = "JObj [(''type'', JStr ''timeline''), (''phases'', JArr ?phases)]"
  have supported: "''en'' \<in> set SUPPORTED_LANGS"
    by (simp add: SUPPORTED_LANGS_def)
  have phases: "get_prop ?block ''phases'' = Inr (JArr ?phases)"
    by simp
  have wf: "list_all (record_ok [''phase'', ''title'', ''description'']) ?phases"
    by simp
  have "renderTimeline ''en'' ?block =
     Inr (Element ''div'' [] []
            [Element ''p'' ''cs-section-label'' [] [Text ''Process''],
             Element ''div'' ''cs-timeline'' []
               [Element ''div'' ''cs-timeline__phase-entry cs-timeline__phase-entry--wip'' []
                  [Element ''p'' ''cs-timeline__phase-num'' [] [Text ''Phase 1''],
                   Element ''span'' ''cs-timeline__phase-wip-badge'' [] [Markup ''In Progress''],
                   Element ''h3'' ''cs-timeline__phase-title'' [] [Markup ''Start''],
                   Element ''p'' ''cs-timeline__phase-desc'' [] []],
                Element ''div'' ''cs-timeline__phase-entry'' []
                  [Element ''p'' ''cs-timeline__phase-num'' [] [Text ''Discovery''],
                   Element ''h3'' ''cs-timeline__phase-title'' [] [],
                   Element ''p'' ''cs-timeline__phase-desc'' [] []]]])"
    by code_simp
  with renderTimeline_phase_labels [OF supported phases, of 0] supported phases wf
  show ?thesis by simp
qed

end
